theory Spec2Isabelle
  imports Complex_Main
begin

section \<open>Python values used by the interview service\<close>

subsection \<open>Exceptions\<close>

text \<open>
  Every exception the service can raise or catch is a value. Each carries the text that
  \<^verbatim>\<open>str(e)\<close> yields, because \<^verbatim>\<open>process_message\<close> and the greeting builder
  put that text into their replies.
\<close>

datatype error =
    ValueError string
  | ValidationError string
  | TypeError string
  | AttributeError string
  | JSONDecodeError string
  | UpstreamError string
  | HTTPException nat string

fun error_str :: "error \<Rightarrow> string" where
  "error_str (ValueError m) = m"
| "error_str (ValidationError m) = m"
| "error_str (TypeError m) = m"
| "error_str (AttributeError m) = m"
| "error_str (JSONDecodeError m) = m"
| "error_str (UpstreamError m) = m"
| "error_str (HTTPException c m) = m"

definition none_not_subscriptable :: error where
  "none_not_subscriptable = TypeError (CHR 0x27 # ''NoneType'' @ CHR 0x27 # '' object is not subscriptable'')"

definition none_has_no_get :: error where
  "none_has_no_get =
     AttributeError (CHR 0x27 # ''NoneType'' @ CHR 0x27 # '' object has no attribute '' @ CHR 0x27 # ''get'' @ [CHR 0x27])"

definition not_a_dict :: error where
  "not_a_dict = AttributeError (''object has no attribute '' @ CHR 0x27 # ''get'' @ [CHR 0x27])"

subsection \<open>Floats\<close>

text \<open>
  A Python float is an IEEE 754 binary64 number. A finite one is \<open>m * 2 ^ e\<close> for
  integers \<open>m\<close> and \<open>e\<close>; \<open>Float m e\<close> is kept in the unique form the format
  stores: \<open>2 ^ 52 \<le> \<bar>m\<bar> < 2 ^ 53\<close> for a normal number, \<open>e = - 1074\<close> for a
  subnormal one, and \<open>Float 0 0\<close> for zero. Every operation computes the exact result
  and rounds it to the nearest such number, ties to the even mantissa. The exponent is
  not bounded above: results beyond the largest double (which Python turns into
  \<^verbatim>\<open>inf\<close>) are outside this model.
\<close>

datatype pyfloat = Float (mantissa: int) (exponent: int)

function bit_length :: "nat \<Rightarrow> nat" where
  "bit_length n = (if n = 0 then 0 else Suc (bit_length (n div 2)))"
  by pat_completeness auto
termination
  by (relation "measure id") auto

declare bit_length.simps [simp del]

definition round_half_even :: "int \<Rightarrow> int \<Rightarrow> int" where
  "round_half_even n d =
     (let q = n div d; r = n mod d
      in if 2 * r < d then q else if d < 2 * r then q + 1
         else if even q then q else q + 1)"

definition floor_log2 :: "int \<Rightarrow> int \<Rightarrow> int" where
  \<comment> \<open>the \<open>k\<close> with \<open>2 ^ k \<le> n / d < 2 ^ (k + 1)\<close>, for positive \<open>n\<close> and \<open>d\<close>\<close>
  "floor_log2 n d =
     (let k = int (bit_length (nat n)) - int (bit_length (nat d))
      in if (if 0 \<le> k then d * 2 ^ nat k \<le> n else d \<le> n * 2 ^ nat (- k))
         then k else k - 1)"

definition round_pos :: "int \<Rightarrow> int \<Rightarrow> pyfloat" where
  "round_pos n d =
     (let q = max (floor_log2 n d - 52) (- 1074);
          m = (if 0 \<le> q then round_half_even n (d * 2 ^ nat q)
               else round_half_even (n * 2 ^ nat (- q)) d)
      in if m = 2 ^ 53 then Float (2 ^ 52) (q + 1) else Float m q)"

definition round_ratio :: "int \<Rightarrow> int \<Rightarrow> pyfloat" where
  \<comment> \<open>the double nearest to \<open>n / d\<close>, for \<open>0 < d\<close>\<close>
  "round_ratio n d =
     (if n = 0 then Float 0 0
      else if 0 < n then round_pos n d
      else (case round_pos (- n) d of Float m e \<Rightarrow> Float (- m) e))"

definition scaled :: "int \<Rightarrow> int \<Rightarrow> pyfloat" where
  \<comment> \<open>the double nearest to \<open>m * 2 ^ e\<close>\<close>
  "scaled m e =
     (if 0 \<le> e then round_ratio (m * 2 ^ nat e) 1 else round_ratio m (2 ^ nat (- e)))"

fun fmul :: "pyfloat \<Rightarrow> pyfloat \<Rightarrow> pyfloat" where
  "fmul (Float m1 e1) (Float m2 e2) = scaled (m1 * m2) (e1 + e2)"

fun fadd :: "pyfloat \<Rightarrow> pyfloat \<Rightarrow> pyfloat" where
  "fadd (Float m1 e1) (Float m2 e2) =
     (let e = min e1 e2
      in scaled (m1 * 2 ^ nat (e1 - e) + m2 * 2 ^ nat (e2 - e)) e)"

definition div_million :: "int \<Rightarrow> pyfloat" where
  \<comment> \<open>Python's \<^verbatim>\<open>t / 1_000_000\<close> on an int \<open>t\<close>: the correctly rounded quotient\<close>
  "div_million t = round_ratio t 1000000"

definition float_literal :: "int \<Rightarrow> int \<Rightarrow> pyfloat" where
  \<comment> \<open>the float that the decimal literal \<open>n / 10 ^ k\<close> denotes, e.g.
      \<open>float_literal 225 6\<close> for \<^verbatim>\<open>0.000225\<close>\<close>
  "float_literal n k = round_ratio n (10 ^ nat k)"

definition float_value :: "pyfloat \<Rightarrow> rat" where
  "float_value x =
     (if 0 \<le> exponent x then of_int (mantissa x) * 2 ^ nat (exponent x)
      else of_int (mantissa x) / 2 ^ nat (- exponent x))"

subsection \<open>JSON values\<close>

datatype json =
    JNull
  | JBool bool
  | JInt int
  | JFloat pyfloat
  | JStr string
  | JArr "json list"
  | JObj "(string \<times> json) list"

definition dict_get :: "json \<Rightarrow> string \<Rightarrow> json \<Rightarrow> error + json" where
  \<comment> \<open>\<^verbatim>\<open>d.get(key, default)\<close>: AttributeError when \<open>d\<close> is not a dict\<close>
  "dict_get d k dflt =
     (case d of
        JObj kvs \<Rightarrow> (case map_of kvs k of None \<Rightarrow> Inr dflt | Some v \<Rightarrow> Inr v)
      | _ \<Rightarrow> Inl not_a_dict)"

subsection \<open>Strings\<close>

definition nl :: string where
  "nl = [CHR 0x0A]"

definition dq :: string where
  "dq = [CHR 0x22]"

definition digit_char :: "nat \<Rightarrow> char" where
  "digit_char d = ''0123456789'' ! d"

function str_nat :: "nat \<Rightarrow> string" where
  "str_nat n = (if n < 10 then [digit_char n] else str_nat (n div 10) @ [digit_char (n mod 10)])"
  by pat_completeness auto
termination
  by (relation "measure id") auto

declare str_nat.simps [simp del]

fun join :: "string \<Rightarrow> string list \<Rightarrow> string" where
  "join sep [] = []"
| "join sep [x] = x"
| "join sep (x # y # ys) = x @ sep @ join sep (y # ys)"

function str_replace :: "string \<Rightarrow> string \<Rightarrow> string \<Rightarrow> string" where
  "str_replace [] new s = new @ concat (map (\<lambda>c. c # new) s)"
| "str_replace (a # old) new [] = []"
| "str_replace (a # old) new (c # cs) =
     (if take (Suc (length old)) (c # cs) = a # old
      then new @ str_replace (a # old) new (drop (length old) cs)
      else c # str_replace (a # old) new cs)"
  by pat_completeness auto
termination
  by (relation "measure (\<lambda>(old, new, s). length s)") auto

definition first_line :: "string \<Rightarrow> string" where
  \<comment> \<open>\<^verbatim>\<open>s.split("\n")[0]\<close>\<close>
  "first_line s = takeWhile (\<lambda>c. c \<noteq> CHR 0x0A) s"

section \<open>Data model\<close>

text \<open>
  Documents are records with the fields the service reads or writes. A collection is the
  list of its documents in storage order: \<^verbatim>\<open>find_one\<close> returns the first match,
  \<^verbatim>\<open>update_one\<close> changes the first match, \<^verbatim>\<open>insert_one\<close> appends a
  document under a new identifier. An \<^verbatim>\<open>ObjectId\<close> is a natural number.
  The \<^verbatim>\<open>updated_at\<close> stamps, which nothing reads, are left out.
\<close>

type_synonym oid = nat

record follow_up =
  fu_text :: string
  fu_condition :: string

record question =
  question_id :: string
  q_text :: string
  q_follow_up :: "follow_up option"
  scoring_rubric :: string
  max_score :: int
  q_order :: int

record stage =
  stage_id :: string
  questions :: "question list"

record interview_agent =
  enabled :: bool
  agent_prompt :: string

record pipeline =
  p_id :: oid
  p_organization_id :: oid
  stages :: "stage list"
  p_interview_agent :: "interview_agent option"
  airtable_table_id :: "string option"

record candidate =
  c_id :: oid
  organization_id :: oid
  c_pipeline_id :: oid
  first_name :: string
  last_name :: string
  email :: string
  c_status :: string
  airtable_record_id :: "string option"
  c_telegram_chat_id :: "string option"
  c_total_input_tokens :: int
  c_total_output_tokens :: int
  c_total_ai_cost :: pyfloat

record organization =
  o_id :: oid
  airtable_api_key :: "string option"
  airtable_base_id :: "string option"
  o_total_input_tokens :: int
  o_total_output_tokens :: int
  o_total_ai_cost :: pyfloat

record user =
  u_email :: string
  u_organization_id :: oid

record tool_call =
  tc_id :: string
  tc_name :: string
  tc_arguments :: string

record message =
  m_role :: string
  m_content :: "string option"
  m_tool_calls :: "tool_call list"
  m_tool_call_id :: "string option"
  m_name :: "string option"

datatype platform = Telegram | WebSimulator

record session =
  s_id :: oid
  s_candidate_id :: oid
  s_pipeline_id :: oid
  s_platform :: platform
  s_telegram_chat_id :: "string option"
  messages :: "message list"
  status :: string
  scores :: json
  total_score :: json
  created_at :: nat

record usage_log =
  l_organization_id :: oid
  l_candidate_id :: oid
  interaction_type :: string
  l_model :: string
  input_tokens :: int
  output_tokens :: int
  cost :: pyfloat

subsection \<open>The language model and the other collaborators\<close>

record usage =
  prompt_tokens :: int
  completion_tokens :: int

record llm_response =
  r_usage :: "usage option"
  r_content :: "string option"
  r_tool_calls :: "tool_call list"

text \<open>The outcome of one completion call: \<open>Inl m\<close> is an exception with text \<open>m\<close>.\<close>

type_synonym llm_result = "string + llm_response"

record tool =
  tool_type :: string
  fn_name :: string
  fn_description :: string
  fn_parameters :: json

record llm_request =
  req_model :: string
  req_messages :: "message list"
  req_tools :: "tool list option"
  req_tool_choice :: "string option"
  req_temperature :: "pyfloat option"
  req_response_format :: "string option"

record airtable_update =
  au_base_id :: string
  au_table_id :: string
  au_record_id :: string
  au_status :: string
  au_notes :: string

text \<open>
  What the service does not decide itself is collected in an environment: the language
  model (its answer may depend on every request made so far, the current one last), the
  library functions \<^verbatim>\<open>json.loads\<close>, \<^verbatim>\<open>json.dumps(_, indent=2)\<close> and
  \<^verbatim>\<open>str\<close>, pydantic's check of the session fields other than \<^verbatim>\<open>status\<close>,
  and the two billing rates of the settings.
\<close>

record env =
  llm :: "llm_request list \<Rightarrow> llm_result"
  json_loads :: "string \<Rightarrow> string + json"
  json_dumps :: "json \<Rightarrow> string"
  py_str :: "json \<Rightarrow> string"
  fields_ok :: "session \<Rightarrow> bool"
  input_token_cost_per_million :: pyfloat
  output_token_cost_per_million :: pyfloat

text \<open>
  The state: the five collections, and the record of what was sent to the language
  model, to Airtable and to Telegram chats.
\<close>

record world =
  candidates :: "candidate list"
  pipelines :: "pipeline list"
  organizations :: "organization list"
  users :: "user list"
  interview_sessions :: "session list"
  token_usage_logs :: "usage_log list"
  llm_calls :: "llm_request list"
  airtable_updates :: "airtable_update list"
  telegram_sent :: "(string \<times> string option) list"

fun update_first :: "('a \<Rightarrow> bool) \<Rightarrow> ('a \<Rightarrow> 'a) \<Rightarrow> 'a list \<Rightarrow> 'a list" where
  "update_first P f [] = []"
| "update_first P f (x # xs) = (if P x then f x # xs else x # update_first P f xs)"

definition fresh_oid :: "oid list \<Rightarrow> oid" where
  "fresh_oid ids = Suc (foldr max ids 0)"

definition truthy :: "string option \<Rightarrow> bool" where
  \<comment> \<open>Python truth of an optional string: neither \<^verbatim>\<open>None\<close> nor empty\<close>
  "truthy x = (case x of None \<Rightarrow> False | Some s \<Rightarrow> s \<noteq> [])"

definition model_name :: string where
  "model_name = ''gpt-4-turbo-preview''"

definition plain :: "string \<Rightarrow> string \<Rightarrow> message" where
  \<comment> \<open>the dict \<^verbatim>\<open>{"role": r, "content": c}\<close>\<close>
  "plain r c = \<lparr>m_role = r, m_content = Some c, m_tool_calls = [], m_tool_call_id = None, m_name = None\<rparr>"

definition call_llm :: "env \<Rightarrow> world \<Rightarrow> llm_request \<Rightarrow> llm_result \<times> world" where
  "call_llm E w req =
     (let calls = llm_calls w @ [req] in (llm E calls, w\<lparr>llm_calls := calls\<rparr>))"

definition push_message :: "world \<Rightarrow> oid \<Rightarrow> message \<Rightarrow> world" where
  \<comment> \<open>\<^verbatim>\<open>update_one({"_id": sid}, {"$push": {"messages": m}})\<close>\<close>
  "push_message w sid m =
     w\<lparr>interview_sessions :=
         update_first (\<lambda>s. s_id s = sid) (\<lambda>s. s\<lparr>messages := messages s @ [m]\<rparr>)
           (interview_sessions w)\<rparr>"

definition InterviewSession :: "env \<Rightarrow> session \<Rightarrow> error + session" where
  \<comment> \<open>\<^verbatim>\<open>InterviewSession(**doc)\<close>: \<^verbatim>\<open>status\<close> is declared
      \<^verbatim>\<open>Literal["active", "completed"]\<close>\<close>
  "InterviewSession E doc =
     (if (status doc = ''active'' \<or> status doc = ''completed'') \<and> fields_ok E doc
      then Inr doc else Inl (ValidationError ''validation error for InterviewSession''))"

section \<open>The prompt of a session\<close>

definition question_entry :: "question \<Rightarrow> string" where
  "question_entry q =
     (case q_follow_up q of
        None \<Rightarrow> q_text q
      | Some f_up \<Rightarrow>
          if fu_text f_up = [] then q_text q
          else if fu_condition f_up = ''ai_judgment''
          then q_text q @ nl @ ''   [FOLLOW-UP] If the answer is vague or interesting, ask: ''
                 @ dq @ fu_text f_up @ dq
          else q_text q @ nl @ ''   [FOLLOW-UP] If answer is '' @ dq @ fu_condition f_up @ dq
                 @ '' (or similar), ask: '' @ dq @ fu_text f_up @ dq)"

fun numbered :: "nat \<Rightarrow> string list \<Rightarrow> string list" where
  "numbered i [] = []"
| "numbered i (q # qs) = (str_nat (i + 1) @ ''. '' @ q) # numbered (i + 1) qs"

definition fill_template :: "string \<Rightarrow> string list \<Rightarrow> string" where
  "fill_template prompt_template collected =
     (let questions_data =
            (if collected = [] then [''Describe your background.'', ''Why do you want this job?'']
             else collected);
          total_questions = length questions_data;
          last_question_text =
            (if questions_data = [] then [] else first_line (last questions_data));
          penultimate_question = (if 1 < total_questions then total_questions - 1 else 1);
          questions_list_str = join nl (numbered 0 questions_data);
          p1 = str_replace ''{{TOTAL_QUESTIONS}}'' (str_nat total_questions) prompt_template;
          p2 = str_replace ''{{QUESTIONS_LIST}}'' questions_list_str p1;
          p3 = str_replace ''{{LAST_QUESTION_TEXT}}'' last_question_text p2
      in str_replace ''{{PENULTIMATE_QUESTION}}'' (str_nat penultimate_question) p3)"

definition get_system_prompt :: "world \<Rightarrow> oid \<Rightarrow> string" where
  "get_system_prompt w pipeline_id =
     (case find (\<lambda>p. p_id p = pipeline_id) (pipelines w) of
        None \<Rightarrow> ''You are a helpful interviewer. Please ask questions.''
      | Some pipeline \<Rightarrow>
          (case p_interview_agent pipeline of
             None \<Rightarrow> ''You are a helpful interviewer. Please ask questions in English.''
           | Some agent_config \<Rightarrow>
               if \<not> enabled agent_config
               then ''You are a helpful interviewer. Please ask questions in English.''
               else fill_template (agent_prompt agent_config)
                      (concat (map (\<lambda>stage. map question_entry (questions stage))
                                 (stages pipeline)))))"

section \<open>The usage ledger\<close>

definition log_token_usage :: "env \<Rightarrow> world \<Rightarrow> usage \<Rightarrow> oid \<Rightarrow> string \<Rightarrow> world" where
  "log_token_usage E w u candidate_id itype =
     (case find (\<lambda>c. c_id c = candidate_id) (candidates w) of
        None \<Rightarrow> w
      | Some candidate \<Rightarrow>
          let org_id = organization_id candidate;
              cost_input = fmul (div_million (prompt_tokens u)) (input_token_cost_per_million E);
              cost_output = fmul (div_million (completion_tokens u)) (output_token_cost_per_million E);
              total_cost = fadd cost_input cost_output;
              log_entry = \<lparr>l_organization_id = org_id, l_candidate_id = candidate_id,
                           interaction_type = itype, l_model = model_name,
                           input_tokens = prompt_tokens u, output_tokens = completion_tokens u,
                           cost = total_cost\<rparr>;
              w1 = w\<lparr>token_usage_logs := token_usage_logs w @ [log_entry]\<rparr>;
              w2 = w1\<lparr>candidates :=
                        update_first (\<lambda>c. c_id c = candidate_id)
                          (\<lambda>c. c\<lparr>c_total_input_tokens := c_total_input_tokens c + prompt_tokens u,
                                  c_total_output_tokens := c_total_output_tokens c + completion_tokens u,
                                  c_total_ai_cost := fadd (c_total_ai_cost c) total_cost\<rparr>)
                          (candidates w1)\<rparr>
          in w2\<lparr>organizations :=
                   update_first (\<lambda>org. o_id org = org_id)
                     (\<lambda>org. org\<lparr>o_total_input_tokens := o_total_input_tokens org + prompt_tokens u,
                                 o_total_output_tokens := o_total_output_tokens org + completion_tokens u,
                                 o_total_ai_cost := fadd (o_total_ai_cost org) total_cost\<rparr>)
                     (organizations w2)\<rparr>)"

definition log_if_usage :: "env \<Rightarrow> world \<Rightarrow> usage option \<Rightarrow> oid \<Rightarrow> string \<Rightarrow> world" where
  \<comment> \<open>\<^verbatim>\<open>if response.usage: await self._log_token_usage(...)\<close>\<close>
  "log_if_usage E w ou candidate_id itype =
     (case ou of None \<Rightarrow> w | Some u \<Rightarrow> log_token_usage E w u candidate_id itype)"

section \<open>The session manager\<close>

definition apology :: "string \<Rightarrow> message" where
  "apology e =
     plain ''assistant''
       (''I apologize, I'm having trouble starting the interview. Error details: '' @ e)"

definition generate_initial_greeting :: "env \<Rightarrow> world \<Rightarrow> session \<Rightarrow> world" where
  "generate_initial_greeting E w session =
     (let system_prompt = get_system_prompt w (s_pipeline_id session);
          msgs = [plain ''system'' system_prompt, plain ''user'' ''Ready'']
      in case call_llm E w
                \<lparr>req_model = model_name, req_messages = msgs, req_tools = None,
                 req_tool_choice = None, req_temperature = Some (float_literal 7 1),
                 req_response_format = None\<rparr> of
           (Inl e, w1) \<Rightarrow> push_message w1 (s_id session) (apology e)
         | (Inr response, w1) \<Rightarrow>
             let w2 = log_if_usage E w1 (r_usage response) (s_candidate_id session) ''greeting''
             in (case r_content response of
                   None \<Rightarrow> push_message w2 (s_id session) (apology (error_str none_not_subscriptable))
                 | Some c \<Rightarrow>
                     if c = [] then w2
                     else push_message w2 (s_id session) (plain ''assistant'' c)))"

definition refetch :: "env \<Rightarrow> world \<Rightarrow> oid \<Rightarrow> error + session" where
  \<comment> \<open>\<^verbatim>\<open>InterviewSession(**find_one({"_id": sid}))\<close>\<close>
  "refetch E w sid =
     (case find (\<lambda>s. s_id s = sid) (interview_sessions w) of
        None \<Rightarrow> Inl (TypeError ''argument after ** must be a mapping, not NoneType'')
      | Some doc \<Rightarrow> InterviewSession E doc)"

definition new_session :: "world \<Rightarrow> oid \<Rightarrow> oid \<Rightarrow> platform \<Rightarrow> string option \<Rightarrow> nat \<Rightarrow> session" where
  \<comment> \<open>the \<^verbatim>\<open>InterviewSession(...)\<close> that \<^verbatim>\<open>create_session\<close> builds, with the
      identifier that \<^verbatim>\<open>insert_one\<close> gives it\<close>
  "new_session w candidate_id pipeline_id pf chat_id now =
     \<lparr>s_id = fresh_oid (map s_id (interview_sessions w)),
      s_candidate_id = candidate_id, s_pipeline_id = pipeline_id,
      s_platform = pf, s_telegram_chat_id = chat_id,
      messages = [], status = ''active'', scores = JArr [], total_score = JInt 0,
      created_at = now\<rparr>"

definition create_session ::
  "env \<Rightarrow> world \<Rightarrow> oid \<Rightarrow> platform \<Rightarrow> string option \<Rightarrow> nat \<Rightarrow> (error + session) \<times> world" where
  "create_session E w candidate_id pf chat_id now =
     (case find (\<lambda>c. c_id c = candidate_id) (candidates w) of
        None \<Rightarrow> (Inl (ValueError ''Candidate not found''), w)
      | Some candidate \<Rightarrow>
     (case find (\<lambda>p. p_id p = c_pipeline_id candidate) (pipelines w) of
        None \<Rightarrow> (Inl (ValueError ''Pipeline not found''), w)
      | Some pipeline \<Rightarrow>
     (case find (\<lambda>s. s_candidate_id s = candidate_id \<and> status s = ''active'')
             (interview_sessions w) of
        Some existing \<Rightarrow>
          if messages existing = [] then
            (case InterviewSession E existing of
               Inl e \<Rightarrow> (Inl e, w)
             | Inr session_obj \<Rightarrow>
                 let w1 = generate_initial_greeting E w session_obj
                 in (refetch E w1 (s_id existing), w1))
          else (InterviewSession E existing, w)
      | None \<Rightarrow>
          let session = new_session w candidate_id (c_pipeline_id candidate) pf chat_id now;
              w1 = w\<lparr>interview_sessions := interview_sessions w @ [session]\<rparr>;
              w2 = generate_initial_greeting E w1 session
          in (refetch E w2 (s_id session), w2))))"

text \<open>
  \<^verbatim>\<open>create_session\<close> cut at the await between its last \<^verbatim>\<open>find_one\<close> and its
  \<^verbatim>\<open>insert_one\<close>. The first part ends the call (an exception, or the active session
  found) or hands the candidate on; the second part builds and inserts the session in
  the state it finds then. Nothing holds the collection between the two parts, so
  another call may run in between.
\<close>

definition create_session_lookup ::
  "env \<Rightarrow> world \<Rightarrow> oid \<Rightarrow> ((error + session) \<times> world) + candidate" where
  "create_session_lookup E w candidate_id =
     (case find (\<lambda>c. c_id c = candidate_id) (candidates w) of
        None \<Rightarrow> Inl (Inl (ValueError ''Candidate not found''), w)
      | Some candidate \<Rightarrow>
     (case find (\<lambda>p. p_id p = c_pipeline_id candidate) (pipelines w) of
        None \<Rightarrow> Inl (Inl (ValueError ''Pipeline not found''), w)
      | Some pipeline \<Rightarrow>
     (case find (\<lambda>s. s_candidate_id s = candidate_id \<and> status s = ''active'')
             (interview_sessions w) of
        Some existing \<Rightarrow>
          if messages existing = [] then
            (case InterviewSession E existing of
               Inl e \<Rightarrow> Inl (Inl e, w)
             | Inr session_obj \<Rightarrow>
                 let w1 = generate_initial_greeting E w session_obj
                 in Inl (refetch E w1 (s_id existing), w1))
          else Inl (InterviewSession E existing, w)
      | None \<Rightarrow> Inr candidate)))"

definition create_session_insert ::
  "env \<Rightarrow> world \<Rightarrow> candidate \<Rightarrow> oid \<Rightarrow> platform \<Rightarrow> string option \<Rightarrow> nat
     \<Rightarrow> (error + session) \<times> world" where
  "create_session_insert E w candidate candidate_id pf chat_id now =
     (let session = new_session w candidate_id (c_pipeline_id candidate) pf chat_id now;
          w1 = w\<lparr>interview_sessions := interview_sessions w @ [session]\<rparr>;
          w2 = generate_initial_greeting E w1 session
      in (refetch E w2 (s_id session), w2))"

section \<open>The scoring engine\<close>

definition transcript :: "message list \<Rightarrow> string list" where
  "transcript msgs =
     map (\<lambda>msg. (if m_role msg = ''system'' \<or> m_role msg = ''assistant'' then ''AI''
                  else ''Candidate'')
                 @ '': '' @ (case m_content msg of None \<Rightarrow> ''None'' | Some c \<Rightarrow> c))
       (filter (\<lambda>msg. m_role msg \<noteq> ''system'') msgs)"

definition scoring_prompt :: "string \<Rightarrow> string \<Rightarrow> string" where
  "scoring_prompt questions_json transcript_text =
     nl @ ''        You are an expert HR evaluator. Analyze the following interview transcript and score the candidate's answers based on the provided questions and rubrics.'' @ nl
     @ ''        '' @ nl
     @ ''        ### QUESTIONS & RUBRICS'' @ nl
     @ ''        '' @ questions_json @ nl
     @ ''        '' @ nl
     @ ''        ### TRANSCRIPT'' @ nl
     @ ''        '' @ transcript_text @ nl
     @ ''        '' @ nl
     @ ''        ### INSTRUCTIONS'' @ nl
     @ ''        - Retrieve the candidate's answer for each question from the transcript.'' @ nl
     @ ''        - Evaluate the answer against the rubric.'' @ nl
     @ ''        - Assign a score (0 to max_score).'' @ nl
     @ ''        - Provide a brief reasoning.'' @ nl
     @ ''        - If a question was NOT asked or NOT answered, score it 0 and mark as '' @ dq @ ''not_answered'' @ dq @ ''.'' @ nl
     @ ''        '' @ nl
     @ ''        ### OUTPUT FORMAT (JSON)'' @ nl
     @ ''        {'' @ nl
     @ ''            '' @ dq @ ''scores'' @ dq @ '': ['' @ nl
     @ ''                {'' @ nl
     @ ''                    '' @ dq @ ''question_id'' @ dq @ '': '' @ dq @ ''q1'' @ dq @ '','' @ nl
     @ ''                    '' @ dq @ ''score'' @ dq @ '': 8,'' @ nl
     @ ''                    '' @ dq @ ''reasoning'' @ dq @ '': '' @ dq @ ''Candidate explained...'' @ dq @ nl
     @ ''                }'' @ nl
     @ ''            ],'' @ nl
     @ ''            '' @ dq @ ''total_score'' @ dq @ '': 50,'' @ nl
     @ ''            '' @ dq @ ''summary_notes'' @ dq @ '': '' @ dq @ ''Candidate showed strong...'' @ dq @ nl
     @ ''        }'' @ nl
     @ ''        ''"

definition scoring_failed :: json where
  "scoring_failed =
     JObj [(''scores'', JArr []), (''total_score'', JInt 0),
           (''summary_notes'', JStr ''Scoring failed.'')]"

definition scoring_request :: "env \<Rightarrow> pipeline \<Rightarrow> session \<Rightarrow> llm_request" where
  "scoring_request E pipeline session =
     (let questions_data =
            concat (map (\<lambda>stage.
                      map (\<lambda>q. JObj [(''id'', JStr (question_id q)), (''text'', JStr (q_text q)),
                                      (''rubric'', JStr (scoring_rubric q)),
                                      (''max_score'', JInt (max_score q))])
                        (questions stage))
                    (stages pipeline));
          transcript_text = join nl (transcript (messages session));
          prompt = scoring_prompt (json_dumps E (JArr questions_data)) transcript_text
      in \<lparr>req_model = model_name, req_messages = [plain ''user'' prompt], req_tools = None,
          req_tool_choice = None, req_temperature = Some (Float 0 0),
          req_response_format = Some ''json_object''\<rparr>)"

definition evaluate_interview :: "env \<Rightarrow> world \<Rightarrow> session \<Rightarrow> (error + json) \<times> world" where
  "evaluate_interview E w session =
     (case find (\<lambda>p. p_id p = s_pipeline_id session) (pipelines w) of
        None \<Rightarrow> (Inl none_has_no_get, w)
      | Some pipeline \<Rightarrow>
          (case call_llm E w (scoring_request E pipeline session) of
             (Inl e, w1) \<Rightarrow> (Inr scoring_failed, w1)
           | (Inr response, w1) \<Rightarrow>
               let w2 = log_if_usage E w1 (r_usage response) (s_candidate_id session) ''scoring''
               in (case r_content response of
                     None \<Rightarrow> (Inr scoring_failed, w2)
                   | Some content \<Rightarrow>
                       (case json_loads E content of
                          Inl e \<Rightarrow> (Inr scoring_failed, w2)
                        | Inr result \<Rightarrow> (Inr result, w2)))))"

definition airtable_sync :: "env \<Rightarrow> world \<Rightarrow> session \<Rightarrow> json \<Rightarrow> json \<Rightarrow> world" where
  \<comment> \<open>step 4 of \<^verbatim>\<open>complete_interview\<close>; every exception in it is caught and printed\<close>
  "airtable_sync E w session total_sc summary =
     (case find (\<lambda>c. c_id c = s_candidate_id session) (candidates w) of
        None \<Rightarrow> w
      | Some candidate \<Rightarrow>
     (case airtable_record_id candidate of
        None \<Rightarrow> w
      | Some record_id \<Rightarrow>
     if record_id = [] then w else
     (case find (\<lambda>org. o_id org = organization_id candidate) (organizations w) of
        None \<Rightarrow> w
      | Some org \<Rightarrow>
     (case find (\<lambda>p. p_id p = c_pipeline_id candidate) (pipelines w) of
        None \<Rightarrow> w
      | Some pipeline \<Rightarrow>
     (case (airtable_api_key org, airtable_base_id org, airtable_table_id pipeline) of
        (Some api_key, Some base_id, Some table_id) \<Rightarrow>
          if api_key = [] \<or> base_id = [] \<or> table_id = [] then w
          else
            let transcript_text = join (nl @ nl) (transcript (messages session));
                notes = ''SCORE: '' @ py_str E total_sc @ nl @ nl @ ''SUMMARY: '' @ py_str E summary
                        @ nl @ nl @ ''TRANSCRIPT:'' @ nl @ take 5000 transcript_text
            in w\<lparr>airtable_updates := airtable_updates w @
                   [\<lparr>au_base_id = base_id, au_table_id = table_id, au_record_id = record_id,
                     au_status = ''Interview Completed'', au_notes = notes\<rparr>]\<rparr>
      | _ \<Rightarrow> w)))))"

definition complete_interview :: "env \<Rightarrow> world \<Rightarrow> session \<Rightarrow> (error + unit) \<times> world" where
  "complete_interview E w session =
     (case evaluate_interview E w session of
        (Inl e, w1) \<Rightarrow> (Inl e, w1)
      | (Inr scoring_result, w1) \<Rightarrow>
     (case dict_get scoring_result ''scores'' (JArr []) of
        Inl e \<Rightarrow> (Inl e, w1)
      | Inr sc \<Rightarrow>
     (case dict_get scoring_result ''total_score'' (JInt 0) of
        Inl e \<Rightarrow> (Inl e, w1)
      | Inr total_sc \<Rightarrow>
     (case dict_get scoring_result ''summary_notes'' (JStr []) of
        Inl e \<Rightarrow> (Inl e, w1)
      | Inr summary \<Rightarrow>
          let w2 = w1\<lparr>interview_sessions :=
                        update_first (\<lambda>s. s_id s = s_id session)
                          (\<lambda>s. s\<lparr>status := ''completed'', scores := sc, total_score := total_sc\<rparr>)
                          (interview_sessions w1)\<rparr>;
              w3 = w2\<lparr>candidates :=
                        update_first (\<lambda>c. c_id c = s_candidate_id session)
                          (\<lambda>c. c\<lparr>c_status := ''interview_completed''\<rparr>) (candidates w2)\<rparr>
          in (Inr (), airtable_sync E w3 session total_sc summary)))))"

section \<open>The turn processor\<close>

definition no_parameters :: json where
  "no_parameters = JObj [(''type'', JStr ''object''), (''properties'', JObj []), (''required'', JArr [])]"

definition tools :: "tool list" where
  "tools =
     [\<lparr>tool_type = ''function'', fn_name = ''end_interview'',
       fn_description = ''Call this function when the interview is complete (all questions answered).'',
       fn_parameters = no_parameters\<rparr>,
      \<lparr>tool_type = ''function'', fn_name = ''Retrieve_messages1'',
       fn_description = ''Retrieve conversation context and history.'',
       fn_parameters = no_parameters\<rparr>,
      \<lparr>tool_type = ''function'', fn_name = ''User_Info1'',
       fn_description = ''Save candidate details extracted from answers.'',
       fn_parameters =
         JObj [(''type'', JStr ''object''),
               (''properties'',
                JObj [(''data'',
                       JObj [(''type'', JStr ''object''),
                             (''description'',
                              JStr ''Key-value pairs of extracted info (e.g. {'name': 'John', 'age': 30})'')])]),
               (''required'', JArr [JStr ''data''])]\<rparr>]"

definition chat_request :: "message list \<Rightarrow> llm_request" where
  \<comment> \<open>the first completion call of a turn\<close>
  "chat_request msgs =
     \<lparr>req_model = model_name, req_messages = msgs, req_tools = Some tools,
      req_tool_choice = Some ''auto'', req_temperature = Some (float_literal 7 1),
      req_response_format = None\<rparr>"

definition followup_request :: "message list \<Rightarrow> llm_request" where
  \<comment> \<open>the completion call after the tool outputs\<close>
  "followup_request msgs =
     \<lparr>req_model = model_name, req_messages = msgs, req_tools = Some tools,
      req_tool_choice = None, req_temperature = None, req_response_format = None\<rparr>"

definition model_dump :: "llm_response \<Rightarrow> message" where
  \<comment> \<open>the assistant message that carries the tool calls, as a dict\<close>
  "model_dump response =
     \<lparr>m_role = ''assistant'', m_content = r_content response,
      m_tool_calls = r_tool_calls response, m_tool_call_id = None, m_name = None\<rparr>"

definition tool_result :: "tool_call \<Rightarrow> string \<Rightarrow> message" where
  "tool_result tc tool_output =
     \<lparr>m_role = ''tool'', m_content = Some tool_output, m_tool_calls = [],
      m_tool_call_id = Some (tc_id tc), m_name = Some (tc_name tc)\<rparr>"

text \<open>
  The loop over the tool calls either returns from \<^verbatim>\<open>process_message\<close>
  (\<open>Finished\<close>), raises (\<open>Raised\<close>), or runs to its end with the working history
  extended by the tool results (\<open>Continue\<close>).
\<close>

datatype tool_outcome =
    Finished string world
  | Raised error world
  | Continue "message list" world

fun run_tool_calls ::
  "env \<Rightarrow> world \<Rightarrow> session \<Rightarrow> message list \<Rightarrow> tool_call list \<Rightarrow> tool_outcome" where
  "run_tool_calls E w session msgs [] = Continue msgs w"
| "run_tool_calls E w session msgs (tc # tcs) =
     (case json_loads E (tc_arguments tc) of
        Inl e \<Rightarrow> Raised (JSONDecodeError e) w
      | Inr args \<Rightarrow>
          if tc_name tc = ''end_interview'' then
            (case complete_interview E w session of
               (Inl e, w1) \<Rightarrow> Raised e w1
             | (Inr u, w1) \<Rightarrow> Finished ''Interview Completed. Thank you!'' w1)
          else if tc_name tc = ''Retrieve_messages1'' then
            run_tool_calls E w session
              (msgs @ [tool_result tc ''Context retrieved successfully. Proceed with analysis.'']) tcs
          else if tc_name tc = ''User_Info1'' then
            (case dict_get args ''data'' (JObj []) of
               Inl e \<Rightarrow> Raised e w
             | Inr data \<Rightarrow>
                 run_tool_calls E w session (msgs @ [tool_result tc ''User info saved.'']) tcs)
          else run_tool_calls E w session (msgs @ [tool_result tc ''Success'']) tcs)"

definition chat_turn ::
  "env \<Rightarrow> world \<Rightarrow> session \<Rightarrow> oid \<Rightarrow> message list \<Rightarrow> (error + string) \<times> world" where
  \<comment> \<open>the body of the \<^verbatim>\<open>try\<close> block of \<^verbatim>\<open>process_message\<close>\<close>
  "chat_turn E w session session_id msgs =
     (case call_llm E w (chat_request msgs) of
        (Inl e, w1) \<Rightarrow> (Inl (UpstreamError e), w1)
      | (Inr response, w1) \<Rightarrow>
          let w2 = log_if_usage E w1 (r_usage response) (s_candidate_id session) ''chat''
          in if r_tool_calls response \<noteq> [] then
               (case run_tool_calls E w2 session (msgs @ [model_dump response])
                       (r_tool_calls response) of
                  Finished reply w3 \<Rightarrow> (Inr reply, w3)
                | Raised e w3 \<Rightarrow> (Inl e, w3)
                | Continue msgs2 w3 \<Rightarrow>
                    (case call_llm E w3 (followup_request msgs2) of
                       (Inl e, w4) \<Rightarrow> (Inl (UpstreamError e), w4)
                     | (Inr response2, w4) \<Rightarrow>
                         let w5 = log_if_usage E w4 (r_usage response2) (s_candidate_id session)
                                    ''chat_tool_response''
                         in (case r_content response2 of
                               None \<Rightarrow> (Inr ''I understand. Please continue...'', w5)
                             | Some final_content \<Rightarrow>
                                 if final_content \<noteq> [] then
                                   (Inr final_content,
                                    push_message w5 session_id (plain ''assistant'' final_content))
                                 else (Inr ''I understand. Please continue...'', w5))))
             else
               (case r_content response of
                  None \<Rightarrow> (Inl none_not_subscriptable, w2)
                | Some c \<Rightarrow>
                    if c \<noteq> [] then (Inr c, push_message w2 session_id (plain ''assistant'' c))
                    else (Inr ''...'', w2)))"

definition turn_messages :: "world \<Rightarrow> session \<Rightarrow> string \<Rightarrow> message list" where
  \<comment> \<open>the working history of a turn: system prompt, stored log, new user message\<close>
  "turn_messages w session user_text =
     [plain ''system'' (get_system_prompt w (s_pipeline_id session))]
     @ messages session @ [plain ''user'' user_text]"

definition process_message ::
  "env \<Rightarrow> world \<Rightarrow> oid \<Rightarrow> string \<Rightarrow> (error + string) \<times> world" where
  "process_message E w session_id user_text =
     (case find (\<lambda>s. s_id s = session_id) (interview_sessions w) of
        None \<Rightarrow> (Inl (ValueError ''Session not found''), w)
      | Some session_data \<Rightarrow>
     (case InterviewSession E session_data of
        Inl e \<Rightarrow> (Inl e, w)
      | Inr session \<Rightarrow>
          if status session = ''completed''
          then (Inr ''This interview has already been completed. Thank you!'', w)
          else
            let msgs = turn_messages w session user_text;
                w1 = push_message w session_id (plain ''user'' user_text)
            in (case chat_turn E w1 session session_id msgs of
                  (Inl e, w2) \<Rightarrow> (Inr (''Error: '' @ error_str e), w2)
                | (Inr reply, w2) \<Rightarrow> (Inr reply, w2))))"

section \<open>The agent configuration endpoint\<close>

text \<open>
  \<^verbatim>\<open>auto_configure_interview_agent\<close> of the questions router. The text generator
  of \<^verbatim>\<open>utils/prompt_generator.py\<close> is an argument: its result is only stored.
\<close>

definition auto_configure_interview_agent ::
  "(question list \<Rightarrow> string) \<Rightarrow> world \<Rightarrow> oid \<Rightarrow> string option \<Rightarrow> oid
     \<Rightarrow> (error + interview_agent) \<times> world" where
  "auto_configure_interview_agent generate_system_prompt w pipeline_id target_stage_id user_org =
     (case find (\<lambda>p. p_id p = pipeline_id \<and> p_organization_id p = user_org) (pipelines w) of
        None \<Rightarrow> (Inl (HTTPException 404 ''Pipeline not found''), w)
      | Some pipeline \<Rightarrow>
          let qs = (if truthy target_stage_id
                    then (case find (\<lambda>st. Some (stage_id st) = target_stage_id) (stages pipeline) of
                            None \<Rightarrow> [] | Some st \<Rightarrow> questions st)
                    else (case find (\<lambda>st. questions st \<noteq> []) (stages pipeline) of
                            None \<Rightarrow> [] | Some st \<Rightarrow> questions st))
          in if qs = []
             then (Inl (HTTPException 400 ''No questions found in pipeline stages to generate prompt.''), w)
             else
               let agent_data = \<lparr>enabled = True, agent_prompt = generate_system_prompt qs\<rparr>
               in (Inr agent_data,
                   w\<lparr>pipelines :=
                       update_first (\<lambda>p. p_id p = pipeline_id)
                         (\<lambda>p. p\<lparr>p_interview_agent := Some agent_data\<rparr>) (pipelines w)\<rparr>))"

section \<open>The Telegram adapter\<close>

text \<open>
  The handlers are modelled from the point where the callback data and the chat are
  parsed: \<^verbatim>\<open>button_click\<close> is its \<^verbatim>\<open>apply_\<close> branch, with the pipeline
  identifier already an \<^verbatim>\<open>ObjectId\<close>. A message sent to a chat is recorded with
  the text it was given. A non-ASCII character of a fixed text is written as its UTF-8 bytes.
\<close>

definition admin_email :: string where
  "admin_email = ''05bca054@gmail.com''"

definition get_target_org_id :: "world \<Rightarrow> oid option" where
  "get_target_org_id w =
     (case find (\<lambda>u. u_email u = admin_email) (users w) of
        Some admin \<Rightarrow> Some (u_organization_id admin)
      | None \<Rightarrow> (case organizations w of [] \<Rightarrow> None | org # rest \<Rightarrow> Some (o_id org)))"

definition send_message :: "world \<Rightarrow> string \<Rightarrow> string option \<Rightarrow> world" where
  "send_message w chat_id txt = w\<lparr>telegram_sent := telegram_sent w @ [(chat_id, txt)]\<rparr>"

definition went_wrong :: string where
  "went_wrong = ''Something went wrong initiating the interview. Please try /start again.''"

definition send_greeting :: "world \<Rightarrow> string \<Rightarrow> session \<Rightarrow> world" where
  "send_greeting w chat_id session =
     (if messages session \<noteq> [] then
        (let last_msg = last (messages session)
         in if m_role last_msg = ''assistant'' then send_message w chat_id (m_content last_msg)
            else send_message w chat_id (Some went_wrong))
      else send_message w chat_id (Some went_wrong))"

definition start_failed :: "world \<Rightarrow> string \<Rightarrow> error \<Rightarrow> world" where
  "start_failed w chat_id e =
     send_message w chat_id (Some (''Error starting interview: '' @ error_str e))"

definition find_or_create_candidate ::
  "world \<Rightarrow> oid \<Rightarrow> string \<Rightarrow> string \<Rightarrow> string option \<Rightarrow> (error + oid) \<times> world" where
  "find_or_create_candidate w pipeline_id chat_id fname lname =
     (case find (\<lambda>c. c_telegram_chat_id c = Some chat_id \<and> c_pipeline_id c = pipeline_id)
             (candidates w) of
        Some candidate \<Rightarrow> (Inr (c_id candidate), w)
      | None \<Rightarrow>
          (case get_target_org_id w of
             None \<Rightarrow> (Inl (ValidationError ''validation error for CandidateModel''), w)
           | Some org_id \<Rightarrow>
               let candidate_id = fresh_oid (map c_id (candidates w));
                   new_candidate =
                     \<lparr>c_id = candidate_id, organization_id = org_id, c_pipeline_id = pipeline_id,
                      first_name = (if fname = [] then ''Telegram'' else fname),
                      last_name = (case lname of None \<Rightarrow> ''User'' | Some l \<Rightarrow> if l = [] then ''User'' else l),
                      email = ''telegram_'' @ chat_id @ ''@example.com'',
                      c_status = ''active'', airtable_record_id = None,
                      c_telegram_chat_id = None, c_total_input_tokens = 0,
                      c_total_output_tokens = 0, c_total_ai_cost = Float 0 0\<rparr>;
                   w1 = w\<lparr>candidates := candidates w @ [new_candidate]\<rparr>
               in (Inr candidate_id,
                   w1\<lparr>candidates :=
                        update_first (\<lambda>c. c_id c = candidate_id)
                          (\<lambda>c. c\<lparr>c_telegram_chat_id := Some chat_id\<rparr>) (candidates w1)\<rparr>)))"

definition abandon :: "world \<Rightarrow> oid \<Rightarrow> world" where
  \<comment> \<open>\<^verbatim>\<open>update_one({"_id": sid}, {"$set": {"status": "abandoned"}})\<close>\<close>
  "abandon w sid =
     w\<lparr>interview_sessions :=
         update_first (\<lambda>s. s_id s = sid) (\<lambda>s. s\<lparr>status := ''abandoned''\<rparr>)
           (interview_sessions w)\<rparr>"

definition stuck :: "session \<Rightarrow> bool" where
  "stuck session = (messages session \<noteq> [] \<and> m_role (last (messages session)) \<noteq> ''assistant'')"

definition start_interview_chat :: "env \<Rightarrow> world \<Rightarrow> oid \<Rightarrow> string \<Rightarrow> nat \<Rightarrow> world" where
  \<comment> \<open>the \<^verbatim>\<open>try\<close> block of \<^verbatim>\<open>button_click\<close>\<close>
  "start_interview_chat E w candidate_id chat_id now =
     (case create_session E w candidate_id Telegram (Some chat_id) now of
        (Inl e, w1) \<Rightarrow> start_failed w1 chat_id e
      | (Inr session, w1) \<Rightarrow>
          if stuck session then
            (case create_session E (abandon w1 (s_id session)) candidate_id Telegram
                    (Some chat_id) now of
               (Inl e, w2) \<Rightarrow> start_failed w2 chat_id e
             | (Inr fresh, w2) \<Rightarrow> send_greeting w2 chat_id fresh)
          else send_greeting w1 chat_id session)"

definition button_click ::
  "env \<Rightarrow> world \<Rightarrow> oid \<Rightarrow> string \<Rightarrow> string \<Rightarrow> string option \<Rightarrow> nat \<Rightarrow> (error + unit) \<times> world" where
  "button_click E w pipeline_id chat_id fname lname now =
     (case find_or_create_candidate w pipeline_id chat_id fname lname of
        (Inl e, w1) \<Rightarrow> (Inl e, w1)
      | (Inr candidate_id, w1) \<Rightarrow>
          let w2 = send_message w1 chat_id
                     (Some (''Great! Starting your interview for the role... ''
                            @ [CHR 0xF0, CHR 0x9F, CHR 0x9A, CHR 0x80]))
          in (Inr (), start_interview_chat E w2 candidate_id chat_id now))"

fun latest :: "session list \<Rightarrow> session option" where
  \<comment> \<open>the first document of greatest \<^verbatim>\<open>created_at\<close>\<close>
  "latest [] = None"
| "latest (x # xs) =
     (case latest xs of
        None \<Rightarrow> Some x
      | Some y \<Rightarrow> if created_at y \<le> created_at x then Some x else Some y)"

definition handle_message :: "env \<Rightarrow> world \<Rightarrow> string \<Rightarrow> string \<Rightarrow> world" where
  "handle_message E w chat_id user_text =
     (case latest (filter (\<lambda>s. s_telegram_chat_id s = Some chat_id \<and> status s = ''active'')
                     (interview_sessions w)) of
        None \<Rightarrow>
          send_message w chat_id (Some ''You don't have an active interview. Type /start to apply.'')
      | Some session_data \<Rightarrow>
          (case process_message E w (s_id session_data) user_text of
             (Inl e, w1) \<Rightarrow>
               send_message w1 chat_id (Some ''Sorry, I encountered an error. Please try again.'')
           | (Inr response_text, w1) \<Rightarrow> send_message w1 chat_id (Some response_text)))"

section \<open>Operations\<close>

text \<open>
  Everything that writes a session: the two service calls behind the web routes
  (\<^verbatim>\<open>/start\<close>, \<^verbatim>\<open>/chat\<close>) and the two Telegram handlers.
\<close>

datatype operation =
    CreateSession oid platform "string option" nat
  | ProcessMessage oid string
  | ButtonClick oid string string "string option" nat
  | HandleMessage string string

fun step :: "env \<Rightarrow> world \<Rightarrow> operation \<Rightarrow> world" where
  "step E w (CreateSession candidate_id pf chat_id now) =
     snd (create_session E w candidate_id pf chat_id now)"
| "step E w (ProcessMessage session_id user_text) =
     snd (process_message E w session_id user_text)"
| "step E w (ButtonClick pipeline_id chat_id fname lname now) =
     snd (button_click E w pipeline_id chat_id fname lname now)"
| "step E w (HandleMessage chat_id user_text) = handle_message E w chat_id user_text"

definition run :: "env \<Rightarrow> world \<Rightarrow> operation list \<Rightarrow> world" where
  "run E w ops = fold (\<lambda>op w'. step E w' op) ops w"

section \<open>Properties of the stored sessions\<close>

definition stored_ok :: "message \<Rightarrow> bool" where
  \<comment> \<open>a plain \<^verbatim>\<open>{"role", "content"}\<close> dict of the candidate or the assistant\<close>
  "stored_ok m =
     ((m_role m = ''user'' \<or> m_role m = ''assistant'') \<and> m_content m \<noteq> None
      \<and> m_tool_calls m = [] \<and> m_tool_call_id m = None \<and> m_name m = None)"

definition appended_ok :: "message list \<Rightarrow> message list \<Rightarrow> bool" where
  \<comment> \<open>\<open>new\<close> is \<open>old\<close> followed by plain user and assistant messages\<close>
  "appended_ok old new =
     (take (length old) new = old \<and> list_all stored_ok (drop (length old) new))"

definition valid_status :: "string \<Rightarrow> bool" where
  "valid_status st = (st = ''active'' \<or> st = ''completed'' \<or> st = ''abandoned'')"

definition transition_ok :: "string \<Rightarrow> string \<Rightarrow> bool" where
  \<comment> \<open>no change, or one of the two transitions out of \<^verbatim>\<open>active\<close>\<close>
  "transition_ok a b = (b = a \<or> (a = ''active'' \<and> (b = ''completed'' \<or> b = ''abandoned'')))"

definition active_for :: "oid \<Rightarrow> session \<Rightarrow> bool" where
  "active_for c s = (s_candidate_id s = c \<and> status s = ''active'')"

definition active_inv :: "session list \<Rightarrow> bool" where
  \<comment> \<open>at most one active session for each candidate\<close>
  "active_inv xs =
     (\<forall>c \<in> set (map s_candidate_id xs). length (filter (active_for c) xs) \<le> 1)"

definition status_of :: "oid \<Rightarrow> session list \<Rightarrow> string option" where
  "status_of sid xs = map_option status (find (\<lambda>s. s_id s = sid) xs)"

definition after_first_call ::
  "env \<Rightarrow> world \<Rightarrow> oid \<Rightarrow> session \<Rightarrow> string \<Rightarrow> llm_response \<Rightarrow> world" where
  \<comment> \<open>the state of a turn once the first completion has come back and its usage is logged\<close>
  "after_first_call E w session_id session user_text response =
     log_if_usage E
       (snd (call_llm E (push_message w session_id (plain ''user'' user_text))
               (chat_request (turn_messages w session user_text))))
       (r_usage response) (s_candidate_id session) ''chat''"

definition scoring_result :: "env \<Rightarrow> llm_result \<Rightarrow> json" where
  \<comment> \<open>what \<^verbatim>\<open>evaluate_interview\<close> returns, as a function of the outcome of its call\<close>
  "scoring_result E r =
     (case r of
        Inl e \<Rightarrow> scoring_failed
      | Inr response \<Rightarrow>
          (case r_content response of
             None \<Rightarrow> scoring_failed
           | Some content \<Rightarrow>
               (case json_loads E content of Inl e \<Rightarrow> scoring_failed | Inr result \<Rightarrow> result)))"

definition scoring_call_fails :: "env \<Rightarrow> llm_result \<Rightarrow> bool" where
  \<comment> \<open>the call raises, or its text is missing or is not JSON\<close>
  "scoring_call_fails E r =
     (case r of
        Inl e \<Rightarrow> True
      | Inr response \<Rightarrow>
          (case r_content response of None \<Rightarrow> True | Some content \<Rightarrow> isl (json_loads E content)))"

definition is_object :: "json \<Rightarrow> bool" where
  "is_object j = (case j of JObj kvs \<Rightarrow> True | _ \<Rightarrow> False)"

definition lookup :: "json \<Rightarrow> string \<Rightarrow> json \<Rightarrow> json" where
  \<comment> \<open>\<^verbatim>\<open>d.get(key, default)\<close> on a dict\<close>
  "lookup d k dflt = (case dict_get d k dflt of Inl e \<Rightarrow> dflt | Inr v \<Rightarrow> v)"

definition tool_call_ok :: "env \<Rightarrow> tool_call \<Rightarrow> bool" where
  \<comment> \<open>a tool call other than \<^verbatim>\<open>end_interview\<close> that the loop passes: its arguments
      are JSON, and a dict for \<^verbatim>\<open>User_Info1\<close>\<close>
  "tool_call_ok E tc =
     (tc_name tc \<noteq> ''end_interview'' \<and>
      (case json_loads E (tc_arguments tc) of
         Inl e \<Rightarrow> False
       | Inr args \<Rightarrow> tc_name tc = ''User_Info1'' \<longrightarrow> is_object args))"

definition turn_request :: "llm_request \<Rightarrow> bool" where
  \<comment> \<open>a chat completion with the tool schema, or the scoring call without tools\<close>
  "turn_request r =
     (req_tools r = Some tools \<or> (req_tools r = None \<and> req_response_format r = Some ''json_object''))"

definition calls_extend :: "llm_request list \<Rightarrow> llm_request list \<Rightarrow> bool" where
  \<comment> \<open>\<open>new\<close> is \<open>old\<close> followed by requests of a turn\<close>
  "calls_extend old new =
     (take (length old) new = old \<and> list_all turn_request (drop (length old) new))"

fun outcome_world :: "tool_outcome \<Rightarrow> world" where
  "outcome_world (Finished reply w) = w"
| "outcome_world (Raised e w) = w"
| "outcome_world (Continue msgs w) = w"

text \<open>
  The writes that the service makes to the session collection, as a relation between the
  collection before and after any number of them: a plain message is pushed, an active
  session is closed as completed or as abandoned, or a first active session of a
  candidate is inserted under a new identifier.
\<close>

inductive evolves :: "session list \<Rightarrow> session list \<Rightarrow> bool" where
  evolves_refl: "evolves xs xs"
| evolves_push:
    "evolves xs ys \<Longrightarrow> stored_ok m \<Longrightarrow>
     evolves xs (update_first (\<lambda>s. s_id s = sid) (\<lambda>s. s\<lparr>messages := messages s @ [m]\<rparr>) ys)"
| evolves_complete:
    "evolves xs ys \<Longrightarrow> status_of sid ys = Some ''active'' \<Longrightarrow>
     evolves xs (update_first (\<lambda>s. s_id s = sid)
                  (\<lambda>s. s\<lparr>status := ''completed'', scores := sc, total_score := t\<rparr>) ys)"
| evolves_abandon:
    "evolves xs ys \<Longrightarrow> status_of sid ys = Some ''active'' \<Longrightarrow>
     evolves xs (update_first (\<lambda>s. s_id s = sid) (\<lambda>s. s\<lparr>status := ''abandoned''\<rparr>) ys)"
| evolves_insert:
    "evolves xs ys \<Longrightarrow> s_id new \<notin> set (map s_id ys) \<Longrightarrow> status new = ''active'' \<Longrightarrow>
     messages new = [] \<Longrightarrow>
     find (\<lambda>s. s_candidate_id s = s_candidate_id new \<and> status s = ''active'') ys = None \<Longrightarrow>
     evolves xs (ys @ [new])"

code_pred evolves .

section \<open>Example data\<close>

text \<open>
  One organization with two pipelines: pipeline 1 has one question, pipeline 2 has a
  stage without questions. Candidate 1 has an active session with the greeting in its
  log; candidate 2 has no session. The example model answers from a script, one entry
  for each call; the example parser knows two texts.
\<close>

definition example_template :: string where
  "example_template = ''Ask {{TOTAL_QUESTIONS}} questions:'' @ nl @ ''{{QUESTIONS_LIST}}''"

definition example_scores :: string where
  "example_scores = ''{'' @ dq @ ''total_score'' @ dq @ '': 7}''"

definition example_env :: "llm_result list \<Rightarrow> env" where
  "example_env script =
     \<lparr>llm = (\<lambda>calls. if calls \<noteq> [] \<and> length calls \<le> length script
                     then script ! (length calls - 1) else Inl ''connection error''),
      json_loads = (\<lambda>s. if s = ''{}'' then Inr (JObj [])
                         else if s = example_scores then Inr (JObj [(''total_score'', JInt 7)])
                         else Inl ''Expecting value: line 1 column 1 (char 0)''),
      json_dumps = (\<lambda>j. ''[]''),
      py_str = (\<lambda>j. ''?''),
      fields_ok = (\<lambda>d. True),
      input_token_cost_per_million = float_literal 100 2,
      output_token_cost_per_million = float_literal 250 2\<rparr>"

definition example_question :: question where
  "example_question =
     \<lparr>question_id = ''q1'', q_text = ''Why this job?'', q_follow_up = None,
      scoring_rubric = ''Motivation'', max_score = 10, q_order = 1\<rparr>"

definition example_pipelines :: "pipeline list" where
  "example_pipelines =
     [\<lparr>p_id = 1, p_organization_id = 1,
       stages = [\<lparr>stage_id = ''s1'', questions = [example_question]\<rparr>],
       p_interview_agent = Some \<lparr>enabled = True, agent_prompt = example_template\<rparr>,
       airtable_table_id = None\<rparr>,
      \<lparr>p_id = 2, p_organization_id = 1,
       stages = [\<lparr>stage_id = ''s1'', questions = []\<rparr>],
       p_interview_agent = Some \<lparr>enabled = True, agent_prompt = example_template\<rparr>,
       airtable_table_id = None\<rparr>]"

definition example_candidate :: "oid \<Rightarrow> oid \<Rightarrow> candidate" where
  "example_candidate i p =
     \<lparr>c_id = i, organization_id = 1, c_pipeline_id = p, first_name = ''Ada'',
      last_name = ''Lovelace'', email = ''ada@example.com'', c_status = ''active'',
      airtable_record_id = None, c_telegram_chat_id = None, c_total_input_tokens = 0,
      c_total_output_tokens = 0, c_total_ai_cost = Float 0 0\<rparr>"

definition example_session :: session where
  "example_session =
     \<lparr>s_id = 1, s_candidate_id = 1, s_pipeline_id = 1, s_platform = WebSimulator,
      s_telegram_chat_id = None, messages = [plain ''assistant'' ''Hello''],
      status = ''active'', scores = JArr [], total_score = JInt 0, created_at = 0\<rparr>"

definition example_world :: world where
  "example_world =
     \<lparr>candidates = [example_candidate 1 1, example_candidate 2 2],
      pipelines = example_pipelines,
      organizations = [\<lparr>o_id = 1, airtable_api_key = None, airtable_base_id = None,
                        o_total_input_tokens = 0, o_total_output_tokens = 0,
                        o_total_ai_cost = Float 0 0\<rparr>],
      users = [],
      interview_sessions = [example_session],
      token_usage_logs = [], llm_calls = [], airtable_updates = [], telegram_sent = []\<rparr>"

definition stuck_world :: world where
  \<comment> \<open>the example with a Telegram candidate whose session ends with an unanswered message\<close>
  "stuck_world =
     example_world
       \<lparr>candidates := [(example_candidate 1 1)\<lparr>c_telegram_chat_id := Some ''42''\<rparr>],
        interview_sessions :=
          [example_session
             \<lparr>s_platform := Telegram, s_telegram_chat_id := Some ''42'',
              messages := [plain ''assistant'' ''Hello'', plain ''user'' ''Hi'']\<rparr>]\<rparr>"

definition example_usage :: usage where
  "example_usage = \<lparr>prompt_tokens = 100, completion_tokens = 50\<rparr>"

definition says :: "string \<Rightarrow> llm_result" where
  \<comment> \<open>a completion with text, no tool call and no usage data\<close>
  "says c = Inr \<lparr>r_usage = None, r_content = Some c, r_tool_calls = []\<rparr>"

definition calls_tool :: "string \<Rightarrow> string \<Rightarrow> llm_result" where
  \<comment> \<open>a completion with one tool call and usage data\<close>
  "calls_tool n args =
     Inr \<lparr>r_usage = Some example_usage, r_content = None,
          r_tool_calls = [\<lparr>tc_id = ''call_1'', tc_name = n, tc_arguments = args\<rparr>]\<rparr>"

section \<open>Basic facts\<close>

subsection \<open>Collections\<close>

lemma length_update_first [simp]: "length (update_first P f xs) = length xs"
  by (induction xs) auto

lemma map_update_first:
  "(\<And>x. g (f x) = g x) \<Longrightarrow> map g (update_first P f xs) = map g xs"
  by (induction xs) auto

lemma find_update_first:
  "find P xs = Some x \<Longrightarrow> P (f x) \<Longrightarrow> find P (update_first P f xs) = Some (f x)"
  by (induction xs) (auto split: if_splits)

lemma find_by_id_update_first:
  "(\<And>x. s_id (f x) = s_id x) \<Longrightarrow>
   find (\<lambda>s. s_id s = sid) (update_first (\<lambda>s. s_id s = sid') f xs) =
     (if sid = sid' then map_option f (find (\<lambda>s. s_id s = sid) xs)
      else find (\<lambda>s. s_id s = sid) xs)"
  by (induction xs) auto

lemma status_of_update_first:
  "(\<And>x. s_id (f x) = s_id x) \<Longrightarrow> (\<And>x. status (f x) = status x) \<Longrightarrow>
   status_of sid (update_first (\<lambda>s. s_id s = sid') f xs) = status_of sid xs"
  by (simp add: status_of_def find_by_id_update_first option.map_comp comp_def)

lemma foldr_max_ge: "y \<in> set ys \<Longrightarrow> y \<le> foldr max ys (a::nat)"
  by (induction ys) (auto simp: max.coboundedI2)

lemma fresh_oid_notin: "fresh_oid ids \<notin> set ids"
  using foldr_max_ge[of "fresh_oid ids" ids 0] by (auto simp: fresh_oid_def)

lemma fresh_oid_notin_image [simp]: "fresh_oid (map s_id xs) \<notin> s_id ` set xs"
  using fresh_oid_notin[of "map s_id xs"] by simp

lemma status_of_append_fresh:
  "s_id new \<notin> set (map s_id ys) \<Longrightarrow>
   status_of sid (ys @ [new]) = (if sid = s_id new then Some (status new) else status_of sid ys)"
  by (induction ys) (auto simp: status_of_def)

lemma find_distinct:
  "distinct (map s_id xs) \<Longrightarrow> x \<in> set xs \<Longrightarrow> find (\<lambda>s. s_id s = s_id x) xs = Some x"
  by (induction xs) auto

lemma find_Some_mem: "find P xs = Some x \<Longrightarrow> x \<in> set xs \<and> P x"
  by (induction xs) (auto split: if_splits)

subsection \<open>What a call leaves unchanged\<close>

lemma call_llm_frame [simp]:
  "interview_sessions (snd (call_llm E w r)) = interview_sessions w"
  "candidates (snd (call_llm E w r)) = candidates w"
  "pipelines (snd (call_llm E w r)) = pipelines w"
  "organizations (snd (call_llm E w r)) = organizations w"
  "llm_calls (snd (call_llm E w r)) = llm_calls w @ [r]"
  "fst (call_llm E w r) = llm E (llm_calls w @ [r])"
  by (simp_all add: call_llm_def Let_def)

lemma log_token_usage_frame [simp]:
  "interview_sessions (log_token_usage E w u c t) = interview_sessions w"
  "pipelines (log_token_usage E w u c t) = pipelines w"
  "llm_calls (log_token_usage E w u c t) = llm_calls w"
  by (simp_all add: log_token_usage_def Let_def split: option.splits)

lemma log_if_usage_frame [simp]:
  "interview_sessions (log_if_usage E w ou c t) = interview_sessions w"
  "pipelines (log_if_usage E w ou c t) = pipelines w"
  "llm_calls (log_if_usage E w ou c t) = llm_calls w"
  by (simp_all add: log_if_usage_def split: option.splits)

lemma push_message_frame [simp]:
  "candidates (push_message w sid m) = candidates w"
  "pipelines (push_message w sid m) = pipelines w"
  "organizations (push_message w sid m) = organizations w"
  "llm_calls (push_message w sid m) = llm_calls w"
  by (simp_all add: push_message_def)

subsection \<open>How the operations change the session collection\<close>

lemma stored_ok_plain [simp]:
  "stored_ok (plain ''assistant'' c)" "stored_ok (plain ''user'' c)" "stored_ok (apology e)"
  by (simp_all add: stored_ok_def plain_def apology_def)

lemma evolves_push_message:
  "evolves xs (interview_sessions w) \<Longrightarrow> stored_ok m \<Longrightarrow>
   evolves xs (interview_sessions (push_message w sid m))"
  by (simp add: push_message_def evolves_push)

lemma status_of_push_message [simp]:
  "status_of sid (interview_sessions (push_message w sid' m)) = status_of sid (interview_sessions w)"
  by (simp add: push_message_def status_of_update_first)

lemma evolves_greeting:
  "evolves xs (interview_sessions w) \<Longrightarrow>
   evolves xs (interview_sessions (generate_initial_greeting E w s))"
  unfolding generate_initial_greeting_def Let_def
  by (cases "call_llm E w \<lparr>req_model = model_name,
        req_messages = [plain ''system'' (get_system_prompt w (s_pipeline_id s)), plain ''user'' ''Ready''],
        req_tools = None, req_tool_choice = None, req_temperature = Some (float_literal 7 1),
        req_response_format = None\<rparr>")
     (auto split: sum.splits option.splits intro!: evolves_push_message
           dest: arg_cong[where f="\<lambda>p. interview_sessions (snd p)"])

lemma status_of_greeting [simp]:
  "status_of sid (interview_sessions (generate_initial_greeting E w s)) =
   status_of sid (interview_sessions w)"
  by (simp add: generate_initial_greeting_def call_llm_def Let_def split: sum.splits option.splits)

lemma InterviewSession_Inr: "InterviewSession E d = Inr s \<Longrightarrow>
   s = d \<and> (status d = ''active'' \<or> status d = ''completed'') \<and> fields_ok E d"
  by (auto simp: InterviewSession_def split: if_splits)

lemma refetch_Inr:
  "refetch E w sid = Inr s \<Longrightarrow>
   find (\<lambda>s. s_id s = sid) (interview_sessions w) = Some s \<and> s_id s = sid"
  by (auto simp: refetch_def split: option.splits dest!: InterviewSession_Inr find_Some_mem)

lemma evolves_insert_new:
  assumes "evolves xs (interview_sessions w)"
    and "find (\<lambda>s. s_candidate_id s = c \<and> status s = ''active'') (interview_sessions w) = None"
  shows "evolves xs (interview_sessions w @ [new_session w c pid pf chat now])"
  by (rule evolves_insert[OF assms(1)]) (use assms(2) in \<open>simp_all add: new_session_def fresh_oid_notin\<close>)

lemma evolves_create_session:
  "evolves xs (interview_sessions w) \<Longrightarrow>
   evolves xs (interview_sessions (snd (create_session E w c pf chat now)))"
  unfolding create_session_def Let_def new_session_def[symmetric]
  by (auto split: option.splits sum.splits intro!: evolves_greeting evolves_insert_new)

lemma create_session_active:
  assumes d: "distinct (map s_id (interview_sessions w))"
    and r: "create_session E w c pf chat now = (Inr s, w1)"
  shows "status_of (s_id s) (interview_sessions w1) = Some ''active''"
proof -
  from r obtain cand p where
    cand: "find (\<lambda>ca. c_id ca = c) (candidates w) = Some cand"
    and p: "find (\<lambda>p. p_id p = c_pipeline_id cand) (pipelines w) = Some p"
    unfolding create_session_def by (auto split: option.splits)
  let ?new = "new_session w c (c_pipeline_id cand) pf chat now"
  show ?thesis
  proof (cases "find (\<lambda>s. s_candidate_id s = c \<and> status s = ''active'') (interview_sessions w)")
    case None
    with r cand p have
      w1: "w1 = generate_initial_greeting E
                  (w\<lparr>interview_sessions := interview_sessions w @ [?new]\<rparr>) ?new"
      and rf: "refetch E w1 (s_id ?new) = Inr s"
      unfolding create_session_def Let_def new_session_def[symmetric] by auto
    from refetch_Inr[OF rf] have "s_id s = s_id ?new"
      by simp
    then show ?thesis
      by (simp add: w1 status_of_append_fresh new_session_def)
  next
    case (Some ex)
    then have mem: "ex \<in> set (interview_sessions w)" and act: "status ex = ''active''"
      by (auto dest: find_Some_mem)
    from find_distinct[OF d mem] act
    have so: "status_of (s_id ex) (interview_sessions w) = Some ''active''"
      by (simp add: status_of_def)
    show ?thesis
    proof (cases "messages ex = []")
      case True
      with r Some cand p have w1: "w1 = generate_initial_greeting E w ex"
        and rf: "refetch E w1 (s_id ex) = Inr s"
        unfolding create_session_def Let_def
        by (auto split: sum.splits dest!: InterviewSession_Inr)
      from refetch_Inr[OF rf] have "s_id s = s_id ex" by simp
      then show ?thesis using so by (simp add: w1)
    next
      case False
      with r Some cand p have "w1 = w" "s = ex"
        unfolding create_session_def Let_def
        by (auto dest!: InterviewSession_Inr)
      then show ?thesis using so by simp
    qed
  qed
qed

lemma evaluate_interview_frame [simp]:
  "interview_sessions (snd (evaluate_interview E w s)) = interview_sessions w"
  by (simp add: evaluate_interview_def call_llm_def Let_def split: option.splits sum.splits)

lemma airtable_sync_frame [simp]:
  "interview_sessions (airtable_sync E w s t sm) = interview_sessions w"
  "candidates (airtable_sync E w s t sm) = candidates w"
  "llm_calls (airtable_sync E w s t sm) = llm_calls w"
  by (simp_all add: airtable_sync_def Let_def split: option.splits)

lemma evolves_complete_interview:
  assumes "evolves xs (interview_sessions w)"
    and "status_of (s_id s) (interview_sessions w) = Some ''active''"
  shows "evolves xs (interview_sessions (snd (complete_interview E w s)))"
proof (cases "evaluate_interview E w s")
  case (Pair r w1)
  then have fr: "interview_sessions w1 = interview_sessions w"
    using evaluate_interview_frame[of E w s] by simp
  show ?thesis
    using assms
    by (auto simp: complete_interview_def Pair fr Let_def split: sum.splits intro!: evolves_complete)
qed

lemma run_tool_calls_Continue:
  "run_tool_calls E w s msgs tcs = Continue msgs2 w' \<Longrightarrow> w' = w"
  by (induction tcs arbitrary: msgs) (auto split: sum.splits if_splits prod.splits)

lemma evolves_run_tool_calls:
  assumes "evolves xs (interview_sessions w)"
    and "status_of (s_id s) (interview_sessions w) = Some ''active''"
  shows "evolves xs (interview_sessions (outcome_world (run_tool_calls E w s msgs tcs)))"
proof (induction tcs arbitrary: msgs)
  case Nil
  then show ?case using assms by simp
next
  case (Cons tc tcs)
  show ?case
  proof (cases "json_loads E (tc_arguments tc)")
    case (Inl e)
    then show ?thesis using assms by simp
  next
    case (Inr args)
    show ?thesis
    proof (cases "tc_name tc = ''end_interview''")
      case True
      obtain r w1 where c: "complete_interview E w s = (r, w1)" by force
      with evolves_complete_interview[OF assms, of E] have "evolves xs (interview_sessions w1)"
        by simp
      then show ?thesis using Inr True c by (auto split: sum.splits)
    next
      case False
      then show ?thesis using Inr Cons.IH assms(1) by (auto split: sum.splits)
    qed
  qed
qed

lemma evolves_chat_turn:
  assumes "evolves xs (interview_sessions w)"
    and "status_of (s_id s) (interview_sessions w) = Some ''active''"
  shows "evolves xs (interview_sessions (snd (chat_turn E w s sid msgs)))"
proof (cases "llm E (llm_calls w @ [chat_request msgs])")
  case (Inl e)
  then show ?thesis using assms(1) by (simp add: chat_turn_def call_llm_def Let_def)
next
  case (Inr response)
  let ?w1 = "w\<lparr>llm_calls := llm_calls w @ [chat_request msgs]\<rparr>"
  let ?w2 = "log_if_usage E ?w1 (r_usage response) (s_candidate_id s) ''chat''"
  have e2: "evolves xs (interview_sessions ?w2)"
    and s2: "status_of (s_id s) (interview_sessions ?w2) = Some ''active''"
    using assms by simp_all
  show ?thesis
  proof (cases "r_tool_calls response = []")
    case True
    then show ?thesis using Inr e2
      by (auto simp: chat_turn_def call_llm_def Let_def split: option.splits
               intro!: evolves_push_message)
  next
    case False
    let ?out = "run_tool_calls E ?w2 s (msgs @ [model_dump response]) (r_tool_calls response)"
    have eo: "evolves xs (interview_sessions (outcome_world ?out))"
      by (rule evolves_run_tool_calls[OF e2 s2])
    show ?thesis
    proof (cases ?out)
      case (Finished reply w3)
      then show ?thesis using Inr False eo
        by (simp add: chat_turn_def call_llm_def Let_def)
    next
      case (Raised e w3)
      then show ?thesis using Inr False eo
        by (simp add: chat_turn_def call_llm_def Let_def)
    next
      case (Continue msgs2 w3)
      then show ?thesis using Inr False eo
        by (auto simp: chat_turn_def call_llm_def Let_def split: sum.splits option.splits
                 intro!: evolves_push_message)
    qed
  qed
qed

lemma snd_case_reply [simp]:
  "snd (case p of (Inl e, w) \<Rightarrow> (f e, w) | (Inr r, w) \<Rightarrow> (g r, w)) = snd p"
  by (cases p; cases "fst p") auto

lemma evolves_process_message:
  assumes "evolves xs (interview_sessions w)"
  shows "evolves xs (interview_sessions (snd (process_message E w sid txt)))"
proof (cases "find (\<lambda>s. s_id s = sid) (interview_sessions w)")
  case None
  then show ?thesis using assms by (simp add: process_message_def)
next
  case (Some d)
  show ?thesis
  proof (cases "InterviewSession E d")
    case (Inl e)
    then show ?thesis using assms Some by (simp add: process_message_def)
  next
    case (Inr s)
    from InterviewSession_Inr[OF Inr] have sd: "s = d"
      and st: "status d = ''active'' \<or> status d = ''completed''" by simp_all
    show ?thesis
    proof (cases "status d = ''completed''")
      case True
      then show ?thesis using assms Some Inr sd by (simp add: process_message_def)
    next
      case False
      with st have act: "status d = ''active''" by simp
      from Some have "s_id d = sid" by (auto dest: find_Some_mem)
      with Some act have so: "status_of (s_id s) (interview_sessions w) = Some ''active''"
        by (simp add: status_of_def sd)
      let ?w1 = "push_message w sid (plain ''user'' txt)"
      have "evolves xs (interview_sessions ?w1)"
        by (rule evolves_push_message[OF assms]) simp
      moreover have "status_of (s_id s) (interview_sessions ?w1) = Some ''active''"
        using so by simp
      ultimately have "evolves xs (interview_sessions (snd (chat_turn E ?w1 s sid msgs)))" for msgs
        by (rule evolves_chat_turn)
      then show ?thesis using Some Inr sd False
        by (simp add: process_message_def Let_def)
    qed
  qed
qed

lemma send_message_frame [simp]:
  "interview_sessions (send_message w c t) = interview_sessions w"
  by (simp add: send_message_def)

lemma send_greeting_frame [simp]:
  "interview_sessions (send_greeting w c s) = interview_sessions w"
  by (simp add: send_greeting_def Let_def)

lemma start_failed_frame [simp]:
  "interview_sessions (start_failed w c e) = interview_sessions w"
  by (simp add: start_failed_def)

lemma find_or_create_candidate_frame [simp]:
  "interview_sessions (snd (find_or_create_candidate w p c f l)) = interview_sessions w"
  by (simp add: find_or_create_candidate_def Let_def split: option.splits)

lemma evolves_distinct:
  "evolves xs ys \<Longrightarrow> distinct (map s_id xs) \<Longrightarrow> distinct (map s_id ys)"
  by (induction rule: evolves.induct) (simp_all add: map_update_first)

lemma evolves_start_interview_chat:
  assumes e: "evolves xs (interview_sessions w)"
    and d: "distinct (map s_id (interview_sessions w))"
  shows "evolves xs (interview_sessions (start_interview_chat E w c chat now))"
proof -
  obtain r w1 where cs: "create_session E w c Telegram (Some chat) now = (r, w1)" by force
  from evolves_create_session[OF e, of E c Telegram "Some chat" now] cs
  have e1: "evolves xs (interview_sessions w1)" by simp
  show ?thesis
  proof (cases r)
    case (Inl err)
    then show ?thesis using cs e1 by (simp add: start_interview_chat_def)
  next
    case (Inr s)
    show ?thesis
    proof (cases "stuck s")
      case False
      then show ?thesis using cs Inr e1 by (simp add: start_interview_chat_def)
    next
      case True
      from create_session_active[OF d] cs Inr
      have "status_of (s_id s) (interview_sessions w1) = Some ''active''" by simp
      with e1 have "evolves xs (interview_sessions (abandon w1 (s_id s)))"
        by (simp add: abandon_def evolves_abandon)
      from evolves_create_session[OF this, of E c Telegram "Some chat" now]
      show ?thesis using cs Inr True
        by (auto simp: start_interview_chat_def split: prod.splits sum.splits)
    qed
  qed
qed

lemma evolves_step:
  assumes e: "evolves xs (interview_sessions w)"
    and d: "distinct (map s_id (interview_sessions w))"
  shows "evolves xs (interview_sessions (step E w op))"
proof (cases op)
  case (CreateSession c pf chat now)
  then show ?thesis using evolves_create_session[OF e] by simp
next
  case (ProcessMessage sid ut)
  then show ?thesis using evolves_process_message[OF e] by simp
next
  case (ButtonClick pid chat fname lname now)
  obtain r w1 where f: "find_or_create_candidate w pid chat fname lname = (r, w1)" by force
  then have fr: "interview_sessions w1 = interview_sessions w"
    using find_or_create_candidate_frame[of w pid chat fname lname] by simp
  show ?thesis
  proof (cases r)
    case (Inl err)
    then show ?thesis using ButtonClick f fr e by (simp add: button_click_def)
  next
    case (Inr c)
    have "evolves xs (interview_sessions (start_interview_chat E (send_message w1 chat t) c chat now))" for t
      by (rule evolves_start_interview_chat) (simp_all add: fr e d)
    then show ?thesis using ButtonClick f Inr by (simp add: button_click_def Let_def)
  qed
next
  case (HandleMessage chat ut)
  show ?thesis
  proof (cases "latest (filter (\<lambda>s. s_telegram_chat_id s = Some chat \<and> status s = ''active'')
                     (interview_sessions w))")
    case None
    then show ?thesis using HandleMessage e by (simp add: handle_message_def)
  next
    case (Some sd)
    obtain r w1 where p: "process_message E w (s_id sd) ut = (r, w1)" by force
    with evolves_process_message[OF e, of E "s_id sd" ut]
    have "evolves xs (interview_sessions w1)" by simp
    then show ?thesis using HandleMessage Some p
      by (auto simp: handle_message_def split: sum.splits)
  qed
qed

lemma evolves_run:
  "distinct (map s_id xs) \<Longrightarrow> evolves xs (interview_sessions w) \<Longrightarrow>
   evolves xs (interview_sessions (run E w ops))"
proof (induction ops arbitrary: w)
  case Nil
  then show ?case by (simp add: run_def)
next
  case (Cons op ops)
  from evolves_distinct[OF Cons.prems(2,1)] have "distinct (map s_id (interview_sessions w))" .
  from evolves_step[OF Cons.prems(2) this]
  have "evolves xs (interview_sessions (step E w op))" .
  from Cons.IH[OF Cons.prems(1) this] show ?case by (simp add: run_def)
qed

subsection \<open>What every change of the session collection preserves\<close>

lemma nth_update_first:
  "i < length ys \<Longrightarrow>
   update_first P f ys ! i = ys ! i \<or>
   (find P ys = Some (ys ! i) \<and> update_first P f ys ! i = f (ys ! i))"
  by (induction ys arbitrary: i) (auto simp: nth_Cons split: nat.splits)

lemma update_first_pointwise:
  assumes len: "length xs \<le> length ys"
    and R: "\<forall>i<length xs. R (xs ! i) (ys ! i)"
    and N: "\<forall>i. length xs \<le> i \<and> i < length ys \<longrightarrow> N (ys ! i)"
    and fR: "\<And>a b. R a b \<Longrightarrow> find P ys = Some b \<Longrightarrow> R a (f b)"
    and fN: "\<And>b. N b \<Longrightarrow> find P ys = Some b \<Longrightarrow> N (f b)"
  shows "length xs \<le> length (update_first P f ys)
         \<and> (\<forall>i<length xs. R (xs ! i) (update_first P f ys ! i))
         \<and> (\<forall>i. length xs \<le> i \<and> i < length (update_first P f ys) \<longrightarrow> N (update_first P f ys ! i))"
proof (intro conjI allI impI)
  show "length xs \<le> length (update_first P f ys)" using len by simp
next
  fix i assume i: "i < length xs"
  then have "i < length ys" using len by simp
  from nth_update_first[OF this, of P f] R i fR
  show "R (xs ! i) (update_first P f ys ! i)" by metis
next
  fix i assume i: "length xs \<le> i \<and> i < length (update_first P f ys)"
  then have "i < length ys" by simp
  from nth_update_first[OF this, of P f] N i fN
  show "N (update_first P f ys ! i)" by (metis length_update_first)
qed

lemma evolves_pointwise:
  assumes ev: "evolves xs ys"
    and refl: "\<And>x. R x x"
    and push: "\<And>a b m. R a b \<Longrightarrow> stored_ok m \<Longrightarrow> R a (b\<lparr>messages := messages b @ [m]\<rparr>)"
    and pushN: "\<And>b m. N b \<Longrightarrow> stored_ok m \<Longrightarrow> N (b\<lparr>messages := messages b @ [m]\<rparr>)"
    and compl: "\<And>a b sc t. R a b \<Longrightarrow> status b = ''active'' \<Longrightarrow>
                  R a (b\<lparr>status := ''completed'', scores := sc, total_score := t\<rparr>)"
    and complN: "\<And>b sc t. N b \<Longrightarrow> status b = ''active'' \<Longrightarrow>
                  N (b\<lparr>status := ''completed'', scores := sc, total_score := t\<rparr>)"
    and aband: "\<And>a b. R a b \<Longrightarrow> status b = ''active'' \<Longrightarrow> R a (b\<lparr>status := ''abandoned''\<rparr>)"
    and abandN: "\<And>b. N b \<Longrightarrow> status b = ''active'' \<Longrightarrow> N (b\<lparr>status := ''abandoned''\<rparr>)"
    and ins: "\<And>b. status b = ''active'' \<Longrightarrow> messages b = [] \<Longrightarrow> N b"
  shows "length xs \<le> length ys \<and> (\<forall>i<length xs. R (xs ! i) (ys ! i))
         \<and> (\<forall>i. length xs \<le> i \<and> i < length ys \<longrightarrow> N (ys ! i))"
  using ev
proof (induction rule: evolves.induct)
  case (evolves_refl xs)
  then show ?case by (auto simp: refl)
next
  case (evolves_push xs ys m sid)
  show ?case
    by (rule update_first_pointwise)
       (use evolves_push.IH evolves_push.hyps(2) in \<open>auto intro: push pushN\<close>)
next
  case (evolves_complete xs ys sid sc t)
  have act: "status b = ''active''" if "find (\<lambda>s. s_id s = sid) ys = Some b" for b
    using evolves_complete.hyps(2) that by (simp add: status_of_def)
  show ?case
    by (rule update_first_pointwise)
       (use evolves_complete.IH act in \<open>auto intro: compl complN\<close>)
next
  case (evolves_abandon xs ys sid)
  have act: "status b = ''active''" if "find (\<lambda>s. s_id s = sid) ys = Some b" for b
    using evolves_abandon.hyps(2) that by (simp add: status_of_def)
  show ?case
    by (rule update_first_pointwise)
       (use evolves_abandon.IH act in \<open>auto intro: aband abandN\<close>)
next
  case (evolves_insert xs ys new)
  then show ?case by (auto simp: nth_append intro: ins)
qed




lemma active_inv_iff:
  "active_inv xs \<longleftrightarrow> (\<forall>c. length (filter (active_for c) xs) \<le> 1)"
proof
  assume L: "active_inv xs"
  show "\<forall>c. length (filter (active_for c) xs) \<le> 1"
  proof
    fix c
    show "length (filter (active_for c) xs) \<le> 1"
    proof (cases "c \<in> set (map s_candidate_id xs)")
      case True
      with L show ?thesis unfolding active_inv_def by blast
    next
      case False
      then have "filter (active_for c) xs = []"
        by (auto simp: filter_empty_conv active_for_def)
      then show ?thesis by simp
    qed
  qed
next
  assume "\<forall>c. length (filter (active_for c) xs) \<le> 1"
  then show "active_inv xs" unfolding active_inv_def by blast
qed


subsection \<open>Evaluation on concrete data\<close>

lemma str_nat_digit: "n < 10 \<Longrightarrow> str_nat n = [digit_char n]"
  by (simp add: str_nat.simps)

lemma str_nat_more: "\<not> n < 10 \<Longrightarrow> str_nat n = str_nat (n div 10) @ [digit_char (n mod 10)]"
  by (subst str_nat.simps) simp

lemma bit_length_0: "bit_length 0 = 0"
  by (simp add: bit_length.simps)

lemma bit_length_pos: "n \<noteq> 0 \<Longrightarrow> bit_length n = Suc (bit_length (n div 2))"
  by (subst bit_length.simps) simp

lemmas float_eval =
  bit_length_0 bit_length_pos round_half_even_def floor_log2_def round_pos_def round_ratio_def
  scaled_def div_million_def float_literal_def Let_def

lemmas example_defs =
  example_world_def example_env_def example_pipelines_def example_candidate_def
  example_session_def example_question_def example_template_def example_usage_def says_def
  calls_tool_def example_scores_def

lemmas prompt_defs =
  get_system_prompt_def fill_template_def question_entry_def first_line_def nl_def dq_def
  str_nat_digit str_nat_more digit_char_def

lemmas service_defs =
  process_message_def turn_messages_def chat_turn_def call_llm_def log_if_usage_def
  log_token_usage_def push_message_def InterviewSession_def plain_def complete_interview_def
  evaluate_interview_def scoring_request_def chat_request_def followup_request_def
  model_dump_def tool_result_def airtable_sync_def dict_get_def scoring_failed_def
  create_session_def new_session_def fresh_oid_def generate_initial_greeting_def refetch_def
  apology_def

lemmas adapter_defs =
  button_click_def find_or_create_candidate_def get_target_org_id_def send_message_def
  start_interview_chat_def abandon_def stuck_def send_greeting_def start_failed_def
  handle_message_def went_wrong_def admin_email_def

lemma example_distinct: "distinct (map s_id (interview_sessions example_world))"
  by (simp add: example_defs)

section \<open>The claims\<close>

lemma appended_ok_refl: "appended_ok ms ms"
  by (simp add: appended_ok_def)

lemma appended_ok_snoc: "appended_ok old new \<Longrightarrow> stored_ok m \<Longrightarrow> appended_ok old (new @ [m])"
proof -
  assume a: "appended_ok old new" and m: "stored_ok m"
  from a have t: "take (length old) new = old" by (simp add: appended_ok_def)
  have "length old \<le> length new"
  proof (rule ccontr)
    assume "\<not> length old \<le> length new"
    then have "length (take (length old) new) < length old" by simp
    with t show False by simp
  qed
  with a m t show ?thesis by (simp add: appended_ok_def)
qed

lemma sessions_logs_extend:
  assumes "evolves xs ys"
  shows "length xs \<le> length ys
         \<and> (\<forall>i<length xs. appended_ok (messages (xs ! i)) (messages (ys ! i)))
         \<and> (\<forall>i. length xs \<le> i \<and> i < length ys \<longrightarrow> list_all stored_ok (messages (ys ! i)))"
  by (rule evolves_pointwise[OF assms,
        where R = "\<lambda>a b. appended_ok (messages a) (messages b)"
          and N = "\<lambda>b. list_all stored_ok (messages b)"])
     (simp_all add: appended_ok_refl appended_ok_snoc)

lemma sessions_status_steps:
  assumes "evolves xs ys"
  shows "length xs \<le> length ys
         \<and> (\<forall>i<length xs. transition_ok (status (xs ! i)) (status (ys ! i)))
         \<and> (\<forall>i. length xs \<le> i \<and> i < length ys \<longrightarrow> valid_status (status (ys ! i)))"
  by (rule evolves_pointwise[OF assms,
        where R = "\<lambda>a b. transition_ok (status a) (status b)"
          and N = "\<lambda>b. valid_status (status b)"])
     (auto simp: transition_ok_def valid_status_def)

text \<open>
  C3. On a session collection with unique identifiers, any sequence of operations
  leaves each stored session in its status or moves it from \<^verbatim>\<open>active\<close> to
  \<^verbatim>\<open>completed\<close> or \<^verbatim>\<open>abandoned\<close>; a session that is completed or abandoned
  keeps its status; a session created on the way has one of the three statuses; and if
  every status was one of the three before, it is so after.
\<close>

theorem session_status_transitions:
  assumes "distinct (map s_id (interview_sessions w))"
  shows "let old = interview_sessions w; new = interview_sessions (run E w ops)
         in length old \<le> length new
            \<and> (\<forall>i<length old. transition_ok (status (old ! i)) (status (new ! i)))
            \<and> (\<forall>i<length old. status (old ! i) = ''completed'' \<or> status (old ! i) = ''abandoned''
                   \<longrightarrow> status (new ! i) = status (old ! i))
            \<and> (\<forall>i. length old \<le> i \<and> i < length new \<longrightarrow> valid_status (status (new ! i)))
            \<and> (list_all (\<lambda>s. valid_status (status s)) old
                 \<longrightarrow> list_all (\<lambda>s. valid_status (status s)) new)"
proof -
  let ?old = "interview_sessions w" and ?new = "interview_sessions (run E w ops)"
  have ev: "evolves ?old ?new"
    by (rule evolves_run[OF assms evolves_refl])
  note st = sessions_status_steps[OF ev]
  have keep: "status (?new ! i) = status (?old ! i)"
    if "i < length ?old" "status (?old ! i) = ''completed'' \<or> status (?old ! i) = ''abandoned''" for i
    using st that by (auto simp: transition_ok_def)
  have all: "list_all (\<lambda>s. valid_status (status s)) ?new"
    if v: "list_all (\<lambda>s. valid_status (status s)) ?old"
    unfolding list_all_length
  proof (intro allI impI)
    fix i assume i: "i < length ?new"
    show "valid_status (status (?new ! i))"
    proof (cases "i < length ?old")
      case True
      with v have "valid_status (status (?old ! i))" by (simp add: list_all_length)
      moreover from st True have "transition_ok (status (?old ! i)) (status (?new ! i))" by simp
      ultimately show ?thesis by (auto simp: transition_ok_def valid_status_def)
    next
      case False
      with st i show ?thesis by simp
    qed
  qed
  show ?thesis unfolding Let_def using st keep all by blast
qed

theorem session_status_transitions_witness:
  "distinct (map s_id (interview_sessions stuck_world))
   \<and> transition_ok (status (interview_sessions stuck_world ! 0))
        (status (interview_sessions
                   (run (example_env [says ''Welcome'', calls_tool ''end_interview'' ''{}''])
                      stuck_world
                      [ButtonClick 1 ''42'' ''Ada'' None 9, ProcessMessage 2 ''done'',
                       ProcessMessage 2 ''more'']) ! 0))
   \<and> map status (interview_sessions stuck_world) = [''active'']
   \<and> map status (interview_sessions
          (run (example_env [says ''Welcome'', calls_tool ''end_interview'' ''{}''])
             stuck_world [ButtonClick 1 ''42'' ''Ada'' None 9]))
       = [''abandoned'', ''active'']
   \<and> map status (interview_sessions
          (run (example_env [says ''Welcome'', calls_tool ''end_interview'' ''{}''])
             stuck_world
             [ButtonClick 1 ''42'' ''Ada'' None 9, ProcessMessage 2 ''done'',
              ProcessMessage 2 ''more'']))
       = [''abandoned'', ''completed'']"
proof -
  have d: "distinct (map s_id (interview_sessions stuck_world))"
    by (simp add: stuck_world_def example_defs)
  have l: "0 < length (interview_sessions stuck_world)"
    by (simp add: stuck_world_def)
  from session_status_transitions[OF d,
         of "example_env [says ''Welcome'', calls_tool ''end_interview'' ''{}'']"
            "[ButtonClick 1 ''42'' ''Ada'' None 9, ProcessMessage 2 ''done'',
              ProcessMessage 2 ''more'']"] l
  have t: "transition_ok (status (interview_sessions stuck_world ! 0))
        (status (interview_sessions
                   (run (example_env [says ''Welcome'', calls_tool ''end_interview'' ''{}''])
                      stuck_world
                      [ButtonClick 1 ''42'' ''Ada'' None 9, ProcessMessage 2 ''done'',
                       ProcessMessage 2 ''more'']) ! 0))"
    by (simp add: Let_def)
  have b: "map status (interview_sessions stuck_world) = [''active'']"
    by (simp add: stuck_world_def example_defs)
  have c: "map status (interview_sessions
          (run (example_env [says ''Welcome'', calls_tool ''end_interview'' ''{}''])
             stuck_world [ButtonClick 1 ''42'' ''Ada'' None 9]))
       = [''abandoned'', ''active'']"
    by (simp add: run_def stuck_world_def example_defs adapter_defs service_defs prompt_defs
          Let_def)
  have a: "map status (interview_sessions
          (run (example_env [says ''Welcome'', calls_tool ''end_interview'' ''{}''])
             stuck_world
             [ButtonClick 1 ''42'' ''Ada'' None 9, ProcessMessage 2 ''done'',
              ProcessMessage 2 ''more'']))
       = [''abandoned'', ''completed'']"
    by (simp add: run_def stuck_world_def example_defs adapter_defs service_defs prompt_defs
          Let_def float_eval)
  show ?thesis by (intro conjI d t b c a)
qed

lemma create_session_parts:
  "create_session E w c pf chat now =
     (case create_session_lookup E w c of
        Inl r \<Rightarrow> r
      | Inr candidate \<Rightarrow> create_session_insert E w candidate c pf chat now)"
  by (simp add: create_session_def create_session_lookup_def create_session_insert_def Let_def
        split: option.splits sum.splits)



lemma example_active_inv: "active_inv (interview_sessions example_world)"
  by (simp add: example_defs active_inv_def active_for_def)


text \<open>
  C10. On a session collection with unique identifiers, any sequence of operations
  only appends to the stored log of a session, and every message it appends is a plain
  message of role \<^verbatim>\<open>user\<close> or \<^verbatim>\<open>assistant\<close>: it has text, no tool calls, no
  tool-call identifier and no tool name. The log of a session created on the way holds
  such messages only. So the system prompt, the assistant's tool-call message and the
  tool results are never stored.
\<close>

theorem stored_log_roles:
  assumes "distinct (map s_id (interview_sessions w))"
  shows "let old = interview_sessions w; new = interview_sessions (run E w ops)
         in length old \<le> length new
            \<and> (\<forall>i<length old. appended_ok (messages (old ! i)) (messages (new ! i)))
            \<and> (\<forall>i. length old \<le> i \<and> i < length new
                   \<longrightarrow> list_all stored_ok (messages (new ! i)))"
proof -
  have "evolves (interview_sessions w) (interview_sessions (run E w ops))"
    by (rule evolves_run[OF assms evolves_refl])
  from sessions_logs_extend[OF this] show ?thesis by (simp add: Let_def)
qed

theorem stored_log_roles_witness:
  "distinct (map s_id (interview_sessions example_world))
   \<and> appended_ok (messages (interview_sessions example_world ! 0))
        (messages (interview_sessions
           (run (example_env [calls_tool ''Retrieve_messages1'' ''{}'', says ''Next question''])
              example_world [ProcessMessage 1 ''my answer'']) ! 0))
   \<and> map (\<lambda>s. map m_role (messages s)) (interview_sessions
           (run (example_env [calls_tool ''Retrieve_messages1'' ''{}'', says ''Next question''])
              example_world [ProcessMessage 1 ''my answer'']))
       = [[''assistant'', ''user'', ''assistant'']]
   \<and> map (\<lambda>r. map m_role (req_messages r)) (llm_calls
           (run (example_env [calls_tool ''Retrieve_messages1'' ''{}'', says ''Next question''])
              example_world [ProcessMessage 1 ''my answer'']))
       = [[''system'', ''assistant'', ''user''],
          [''system'', ''assistant'', ''user'', ''assistant'', ''tool'']]"
proof -
  have l: "0 < length (interview_sessions example_world)"
    by (simp add: example_world_def)
  from stored_log_roles[OF example_distinct,
         of "example_env [calls_tool ''Retrieve_messages1'' ''{}'', says ''Next question'']"
            "[ProcessMessage 1 ''my answer'']"] l
  have t: "appended_ok (messages (interview_sessions example_world ! 0))
        (messages (interview_sessions
           (run (example_env [calls_tool ''Retrieve_messages1'' ''{}'', says ''Next question''])
              example_world [ProcessMessage 1 ''my answer'']) ! 0))"
    by (simp add: Let_def)
  have a: "map (\<lambda>s. map m_role (messages s)) (interview_sessions
           (run (example_env [calls_tool ''Retrieve_messages1'' ''{}'', says ''Next question''])
              example_world [ProcessMessage 1 ''my answer'']))
       = [[''assistant'', ''user'', ''assistant'']]"
    by (simp add: run_def example_defs service_defs Let_def float_eval)
  have b: "map (\<lambda>r. map m_role (req_messages r)) (llm_calls
           (run (example_env [calls_tool ''Retrieve_messages1'' ''{}'', says ''Next question''])
              example_world [ProcessMessage 1 ''my answer'']))
       = [[''system'', ''assistant'', ''user''],
          [''system'', ''assistant'', ''user'', ''assistant'', ''tool'']]"
    by (simp add: run_def example_defs service_defs Let_def float_eval)
  show ?thesis by (intro conjI example_distinct t a b)
qed

text \<open>
  C5. When the candidate of a call is stored, the ledger computes the cost as
  \<^verbatim>\<open>(input_tokens / 1_000_000) * input_rate + (output_tokens / 1_000_000) * output_rate\<close>
  in float arithmetic, appends one log entry with that cost, and adds the token counts
  and the cost to the totals of the candidate and of the candidate's organization. For
  100 input and 50 output tokens at the rates 1.00 and 2.50 the cost is the float
  \<^verbatim>\<open>0.000225\<close>.
\<close>

theorem usage_cost_recorded:
  assumes cand: "find (\<lambda>c. c_id c = cid) (candidates w) = Some cand"
    and org: "find (\<lambda>org. o_id org = organization_id cand) (organizations w) = Some org"
  shows "let total_cost =
               fadd (fmul (div_million (prompt_tokens u)) (input_token_cost_per_million E))
                    (fmul (div_million (completion_tokens u)) (output_token_cost_per_million E));
             w' = log_token_usage E w u cid itype
         in token_usage_logs w' =
              token_usage_logs w @
                [\<lparr>l_organization_id = organization_id cand, l_candidate_id = cid,
                  interaction_type = itype, l_model = model_name,
                  input_tokens = prompt_tokens u, output_tokens = completion_tokens u,
                  cost = total_cost\<rparr>]
          \<and> find (\<lambda>c. c_id c = cid) (candidates w') =
              Some (cand\<lparr>c_total_input_tokens := c_total_input_tokens cand + prompt_tokens u,
                         c_total_output_tokens := c_total_output_tokens cand + completion_tokens u,
                         c_total_ai_cost := fadd (c_total_ai_cost cand) total_cost\<rparr>)
          \<and> find (\<lambda>org. o_id org = organization_id cand) (organizations w') =
              Some (org\<lparr>o_total_input_tokens := o_total_input_tokens org + prompt_tokens u,
                        o_total_output_tokens := o_total_output_tokens org + completion_tokens u,
                        o_total_ai_cost := fadd (o_total_ai_cost org) total_cost\<rparr>)
          \<and> fadd (fmul (div_million 100) (float_literal 100 2))
                  (fmul (div_million 50) (float_literal 250 2)) = float_literal 225 6"
proof -
  from cand have cid: "c_id cand = cid"
    by (auto dest: find_Some_mem)
  from org have oid: "o_id org = organization_id cand"
    by (auto dest: find_Some_mem)
  have scenario: "fadd (fmul (div_million 100) (float_literal 100 2))
                  (fmul (div_million 50) (float_literal 250 2)) = float_literal 225 6"
    by (simp add: float_eval)
  show ?thesis
    unfolding Let_def
    apply (intro conjI)
       apply (simp add: cand log_token_usage_def Let_def)
      apply (simp add: cand cid log_token_usage_def Let_def find_update_first)
     apply (simp add: cand org oid log_token_usage_def Let_def find_update_first)
    apply (rule scenario)
    done
qed

theorem usage_cost_recorded_witness:
  "find (\<lambda>c. c_id c = 1) (candidates example_world) = Some (example_candidate 1 1)
   \<and> map cost (token_usage_logs
        (log_token_usage (example_env []) example_world example_usage 1 ''chat''))
       = [float_literal 225 6]
   \<and> map_option c_total_ai_cost (find (\<lambda>c. c_id c = 1) (candidates
        (log_token_usage (example_env []) example_world example_usage 1 ''chat'')))
       = Some (fadd (Float 0 0) (float_literal 225 6))
   \<and> map o_total_ai_cost (organizations
        (log_token_usage (example_env []) example_world example_usage 1 ''chat''))
       = [fadd (Float 0 0) (float_literal 225 6)]
   \<and> float_value (float_literal 225 6) = 4150517416584649 / 2 ^ 64"
proof -
  have c: "find (\<lambda>c. c_id c = 1) (candidates example_world) = Some (example_candidate 1 1)"
    by (simp add: example_defs)
  have o: "find (\<lambda>org. o_id org = organization_id (example_candidate 1 1))
             (organizations example_world)
           = Some \<lparr>o_id = 1, airtable_api_key = None, airtable_base_id = None,
                   o_total_input_tokens = 0, o_total_output_tokens = 0,
                   o_total_ai_cost = Float 0 0\<rparr>"
    by (simp add: example_defs)
  have v: "float_value (float_literal 225 6) = 4150517416584649 / 2 ^ 64"
    by (simp add: float_eval float_value_def)
  have orgs: "organizations (log_token_usage (example_env []) example_world example_usage 1 ''chat'')
        = [the (find (\<lambda>org. o_id org = organization_id (example_candidate 1 1))
             (organizations (log_token_usage (example_env []) example_world example_usage 1 ''chat'')))]"
    by (simp add: example_defs log_token_usage_def Let_def)
  from usage_cost_recorded[OF c o, of example_usage "example_env []" "''chat''"]
  show ?thesis
    apply (simp only: Let_def)
    apply (elim conjE)
    apply (intro conjI)
        apply (rule c)
       apply (simp add: example_defs)
      apply (simp add: example_defs)
     apply (subst orgs)
     apply (simp add: example_defs)
    apply (rule v)
    done
qed


subsection \<open>The turn processor, step by step\<close>

lemma process_message_open:
  assumes "find (\<lambda>s. s_id s = sid) (interview_sessions w) = Some d"
    and "InterviewSession E d = Inr session"
    and "status session \<noteq> ''completed''"
  shows "process_message E w sid ut =
           (case chat_turn E (push_message w sid (plain ''user'' ut)) session sid
                   (turn_messages w session ut) of
              (Inl e, w2) \<Rightarrow> (Inr (''Error: '' @ error_str e), w2)
            | (Inr reply, w2) \<Rightarrow> (Inr reply, w2))"
  using assms by (simp add: process_message_def Let_def)

lemma chat_turn_first_raises:
  assumes "llm E (llm_calls w1 @ [chat_request msgs]) = Inl e"
  shows "chat_turn E w1 session sid msgs =
           (Inl (UpstreamError e), w1\<lparr>llm_calls := llm_calls w1 @ [chat_request msgs]\<rparr>)"
  using assms by (simp add: chat_turn_def call_llm_def Let_def)

lemma chat_turn_followup_raises:
  assumes "llm E (llm_calls w1 @ [chat_request msgs]) = Inr response"
    and "r_tool_calls response \<noteq> []"
    and "run_tool_calls E
           (log_if_usage E (snd (call_llm E w1 (chat_request msgs))) (r_usage response)
              (s_candidate_id session) ''chat'')
           session (msgs @ [model_dump response]) (r_tool_calls response) = Continue msgs2 w3"
    and "llm E (llm_calls w3 @ [followup_request msgs2]) = Inl e"
  shows "fst (chat_turn E w1 session sid msgs) = Inl (UpstreamError e)"
  using assms by (simp add: chat_turn_def call_llm_def Let_def)

text \<open>
  C7. When the session of a turn is stored, passes validation and is not completed,
  \<^verbatim>\<open>process_message\<close> returns a text and never an exception. If the first
  completion call raises with text \<open>e\<close>, the reply is \<^verbatim>\<open>Error: \<close> followed by
  \<open>e\<close>, and only the candidate's message has been stored; if the tool calls were run
  and the completion call after them raises with text \<open>e\<close>, the reply is the same.
\<close>

theorem llm_exception_becomes_reply:
  assumes found: "find (\<lambda>s. s_id s = sid) (interview_sessions w) = Some d"
    and valid: "InterviewSession E d = Inr session"
    and opn: "status session \<noteq> ''completed''"
  shows "(\<exists>reply. fst (process_message E w sid ut) = Inr reply)
       \<and> (llm E (llm_calls w @ [chat_request (turn_messages w session ut)]) = Inl e \<longrightarrow>
            fst (process_message E w sid ut) = Inr (''Error: '' @ e)
            \<and> interview_sessions (snd (process_message E w sid ut))
                = interview_sessions (push_message w sid (plain ''user'' ut)))
       \<and> (\<forall>response msgs2 w3.
            llm E (llm_calls w @ [chat_request (turn_messages w session ut)]) = Inr response
            \<and> r_tool_calls response \<noteq> []
            \<and> run_tool_calls E (after_first_call E w sid session ut response) session
                  (turn_messages w session ut @ [model_dump response]) (r_tool_calls response)
                = Continue msgs2 w3
            \<and> llm E (llm_calls w3 @ [followup_request msgs2]) = Inl e
            \<longrightarrow> fst (process_message E w sid ut) = Inr (''Error: '' @ e))"
proof (intro conjI impI allI)
  note pm = process_message_open[OF found valid opn, of ut]
  show "\<exists>reply. fst (process_message E w sid ut) = Inr reply"
    unfolding pm by (auto split: prod.splits sum.splits)
  {
    assume r: "llm E (llm_calls w @ [chat_request (turn_messages w session ut)]) = Inl e"
    have "llm E (llm_calls (push_message w sid (plain ''user'' ut))
            @ [chat_request (turn_messages w session ut)]) = Inl e"
      using r by simp
    note ct = chat_turn_first_raises[OF this, of session sid]
    show "fst (process_message E w sid ut) = Inr (''Error: '' @ e)"
      unfolding pm ct by simp
    show "interview_sessions (snd (process_message E w sid ut))
            = interview_sessions (push_message w sid (plain ''user'' ut))"
      unfolding pm ct by simp
  }
  {
    fix response msgs2 w3
    assume h: "llm E (llm_calls w @ [chat_request (turn_messages w session ut)]) = Inr response
            \<and> r_tool_calls response \<noteq> []
            \<and> run_tool_calls E (after_first_call E w sid session ut response) session
                  (turn_messages w session ut @ [model_dump response]) (r_tool_calls response)
                = Continue msgs2 w3
            \<and> llm E (llm_calls w3 @ [followup_request msgs2]) = Inl e"
    have "fst (chat_turn E (push_message w sid (plain ''user'' ut)) session sid
                 (turn_messages w session ut)) = Inl (UpstreamError e)"
      by (rule chat_turn_followup_raises[where response = response and ?msgs2.0 = msgs2 and ?w3.0 = w3])
         (use h in \<open>simp_all add: after_first_call_def\<close>)
    then show "fst (process_message E w sid ut) = Inr (''Error: '' @ e)"
      unfolding pm by (auto split: prod.splits sum.splits)
  }
qed

lemma example_found: "find (\<lambda>s. s_id s = 1) (interview_sessions example_world) = Some example_session"
  by (simp add: example_defs)

lemma example_valid: "InterviewSession (example_env script) example_session = Inr example_session"
  by (simp add: example_defs InterviewSession_def)

lemma example_open: "status example_session \<noteq> ''completed''"
  by (simp add: example_defs)

theorem llm_exception_becomes_reply_witness:
  "find (\<lambda>s. s_id s = 1) (interview_sessions example_world) = Some example_session
   \<and> InterviewSession (example_env [Inl ''timeout'']) example_session = Inr example_session
   \<and> status example_session \<noteq> ''completed''
   \<and> llm (example_env [Inl ''timeout''])
        (llm_calls example_world @ [chat_request (turn_messages example_world example_session ''Hi'')])
       = Inl ''timeout''
   \<and> fst (process_message (example_env [Inl ''timeout'']) example_world 1 ''Hi'')
       = Inr ''Error: timeout''"
proof -
  have l: "llm (example_env [Inl ''timeout''])
        (llm_calls example_world @ [chat_request (turn_messages example_world example_session ''Hi'')])
       = Inl ''timeout''"
    by (simp add: example_env_def example_world_def)
  from llm_exception_becomes_reply[OF example_found example_valid example_open,
         of "[Inl ''timeout'']" "''Hi''" "''timeout''"] l
  have "fst (process_message (example_env [Inl ''timeout'']) example_world 1 ''Hi'')
       = Inr ''Error: timeout''" by simp
  with l example_found example_valid example_open show ?thesis by simp
qed


subsection \<open>Scoring and completion\<close>

lemma evaluate_interview_result:
  assumes "find (\<lambda>p. p_id p = s_pipeline_id s) (pipelines w) = Some p"
  shows "fst (evaluate_interview E w s)
           = Inr (scoring_result E (llm E (llm_calls w @ [scoring_request E p s])))"
    and "llm_calls (snd (evaluate_interview E w s)) = llm_calls w @ [scoring_request E p s]"
  using assms
  by (simp_all add: evaluate_interview_def scoring_result_def call_llm_def Let_def
        split: sum.splits option.splits)

lemma scoring_result_fails:
  "scoring_call_fails E r \<Longrightarrow> scoring_result E r = scoring_failed"
  by (auto simp: scoring_call_fails_def scoring_result_def split: sum.splits option.splits)

lemma complete_interview_object:
  assumes "fst (evaluate_interview E w s) = Inr r" and "is_object r"
  shows "fst (complete_interview E w s) = Inr ()"
    and "interview_sessions (snd (complete_interview E w s)) =
           update_first (\<lambda>x. s_id x = s_id s)
             (\<lambda>x. x\<lparr>status := ''completed'', scores := lookup r ''scores'' (JArr []),
                     total_score := lookup r ''total_score'' (JInt 0)\<rparr>)
             (interview_sessions w)"
    and "candidates (snd (complete_interview E w s)) =
           update_first (\<lambda>c. c_id c = s_candidate_id s)
             (\<lambda>c. c\<lparr>c_status := ''interview_completed''\<rparr>)
             (candidates (snd (evaluate_interview E w s)))"
    and "llm_calls (snd (complete_interview E w s)) = llm_calls (snd (evaluate_interview E w s))"
proof -
  obtain r' w1 where ev: "evaluate_interview E w s = (r', w1)" by force
  with assms(1) have r': "r' = Inr r" by simp
  from ev have fr: "interview_sessions w1 = interview_sessions w"
    using evaluate_interview_frame[of E w s] by simp
  from assms(2) obtain kvs where kvs: "r = JObj kvs"
    by (auto simp: is_object_def split: json.splits)
  show "fst (complete_interview E w s) = Inr ()"
    by (simp add: complete_interview_def ev r' kvs dict_get_def Let_def split: option.splits)
  show "interview_sessions (snd (complete_interview E w s)) =
           update_first (\<lambda>x. s_id x = s_id s)
             (\<lambda>x. x\<lparr>status := ''completed'', scores := lookup r ''scores'' (JArr []),
                     total_score := lookup r ''total_score'' (JInt 0)\<rparr>)
             (interview_sessions w)"
    by (simp add: complete_interview_def ev r' kvs dict_get_def lookup_def Let_def fr
          split: option.splits)
  show "candidates (snd (complete_interview E w s)) =
           update_first (\<lambda>c. c_id c = s_candidate_id s)
             (\<lambda>c. c\<lparr>c_status := ''interview_completed''\<rparr>)
             (candidates (snd (evaluate_interview E w s)))"
    by (simp add: complete_interview_def ev r' kvs dict_get_def Let_def split: option.splits)
  show "llm_calls (snd (complete_interview E w s)) = llm_calls (snd (evaluate_interview E w s))"
    by (simp add: complete_interview_def ev r' kvs dict_get_def Let_def split: option.splits)
qed

lemma scoring_failed_object [simp]:
  "is_object scoring_failed"
  "lookup scoring_failed ''scores'' a = JArr []"
  "lookup scoring_failed ''total_score'' b = JInt 0"
  "lookup scoring_failed ''summary_notes'' c = JStr ''Scoring failed.''"
  by (simp_all add: scoring_failed_def is_object_def lookup_def dict_get_def)

text \<open>
  C8. When the pipeline of the session is stored and the scoring call raises, or its text
  is missing or is not JSON, \<^verbatim>\<open>evaluate_interview\<close> raises nothing: it returns the
  result with an empty score list, total 0 and the summary \<^verbatim>\<open>Scoring failed.\<close>,
  and \<^verbatim>\<open>complete_interview\<close> raises nothing and closes the session as completed
  with these scores.
\<close>

theorem scoring_failure_absorbed:
  assumes pipeline: "find (\<lambda>p. p_id p = s_pipeline_id session) (pipelines w) = Some p"
    and fails: "scoring_call_fails E (llm E (llm_calls w @ [scoring_request E p session]))"
  shows "fst (evaluate_interview E w session)
           = Inr (JObj [(''scores'', JArr []), (''total_score'', JInt 0),
                        (''summary_notes'', JStr ''Scoring failed.'')])
       \<and> fst (complete_interview E w session) = Inr ()
       \<and> interview_sessions (snd (complete_interview E w session)) =
           update_first (\<lambda>s. s_id s = s_id session)
             (\<lambda>s. s\<lparr>status := ''completed'', scores := JArr [], total_score := JInt 0\<rparr>)
             (interview_sessions w)"
proof -
  from evaluate_interview_result(1)[OF pipeline, of E] scoring_result_fails[OF fails]
  have ev: "fst (evaluate_interview E w session) = Inr scoring_failed" by simp
  from complete_interview_object(1,2)[OF ev] ev show ?thesis
    by (simp add: scoring_failed_def[symmetric])
qed

theorem scoring_failure_absorbed_witness:
  "find (\<lambda>p. p_id p = s_pipeline_id example_session) (pipelines example_world)
     = Some (hd example_pipelines)
   \<and> scoring_call_fails (example_env [says ''not json''])
        (llm (example_env [says ''not json''])
           (llm_calls example_world
            @ [scoring_request (example_env [says ''not json'']) (hd example_pipelines) example_session]))
   \<and> fst (complete_interview (example_env [says ''not json'']) example_world example_session) = Inr ()
   \<and> map status (interview_sessions
        (snd (complete_interview (example_env [says ''not json'']) example_world example_session)))
       = [''completed'']"
proof -
  have p: "find (\<lambda>p. p_id p = s_pipeline_id example_session) (pipelines example_world)
     = Some (hd example_pipelines)"
    by (simp add: example_defs)
  have f: "scoring_call_fails (example_env [says ''not json''])
        (llm (example_env [says ''not json''])
           (llm_calls example_world
            @ [scoring_request (example_env [says ''not json'']) (hd example_pipelines) example_session]))"
    by (simp add: scoring_call_fails_def example_env_def example_world_def says_def example_scores_def)
  from scoring_failure_absorbed[OF p f] p f show ?thesis
    by (simp add: example_world_def example_session_def)
qed

subsection \<open>Resuming a session\<close>

lemma find_unique:
  "length (filter P xs) \<le> 1 \<Longrightarrow> x \<in> set xs \<Longrightarrow> P x \<Longrightarrow> find P xs = Some x"
proof (induction xs)
  case Nil
  then show ?case by simp
next
  case (Cons y ys)
  show ?case
  proof (cases "P y")
    case True
    with Cons.prems(1) have "filter P ys = []" by simp
    with Cons.prems(2,3) have "x = y" by (auto simp: filter_empty_conv)
    with True show ?thesis by simp
  next
    case False
    with Cons show ?thesis by auto
  qed
qed

text \<open>
  C9. Let a stored candidate with a stored pipeline have an active session whose log is
  not empty, in a collection where every candidate has at most one active session, and
  let that session pass validation. Then \<^verbatim>\<open>create_session\<close> returns that session
  and changes nothing, and so does a second call after the first: both calls return the
  same session and no message is added to its log.
\<close>

theorem create_session_idempotent:
  assumes cand: "find (\<lambda>c. c_id c = cid) (candidates w) = Some cand"
    and pipe: "find (\<lambda>p. p_id p = c_pipeline_id cand) (pipelines w) = Some p"
    and mem: "ex \<in> set (interview_sessions w)"
    and mine: "s_candidate_id ex = cid"
    and act: "status ex = ''active''"
    and log: "messages ex \<noteq> []"
    and inv: "active_inv (interview_sessions w)"
    and ok: "fields_ok E ex"
  shows "create_session E w cid pf chat now = (Inr ex, w)
       \<and> create_session E (snd (create_session E w cid pf chat now)) cid pf' chat' now'
           = (Inr ex, w)"
proof -
  from inv have "length (filter (active_for cid) (interview_sessions w)) \<le> 1"
    by (simp add: active_inv_iff)
  from find_unique[OF this mem] mine act
  have "find (active_for cid) (interview_sessions w) = Some ex"
    by (simp add: active_for_def)
  moreover have "active_for cid = (\<lambda>s. s_candidate_id s = cid \<and> status s = ''active'')"
    by (auto simp: active_for_def)
  ultimately
  have f: "find (\<lambda>s. s_candidate_id s = cid \<and> status s = ''active'') (interview_sessions w) = Some ex"
    by simp
  have "create_session E w cid pf'' chat'' now'' = (Inr ex, w)" for pf'' chat'' now''
    using cand pipe f log act ok by (simp add: create_session_def InterviewSession_def)
  then show ?thesis by simp
qed

theorem create_session_idempotent_witness:
  "find (\<lambda>c. c_id c = 1) (candidates example_world) = Some (example_candidate 1 1)
   \<and> find (\<lambda>p. p_id p = c_pipeline_id (example_candidate 1 1)) (pipelines example_world)
       = Some (hd example_pipelines)
   \<and> example_session \<in> set (interview_sessions example_world)
   \<and> s_candidate_id example_session = 1
   \<and> status example_session = ''active''
   \<and> messages example_session \<noteq> []
   \<and> active_inv (interview_sessions example_world)
   \<and> fields_ok (example_env []) example_session
   \<and> create_session (example_env []) example_world 1 WebSimulator None 7
       = (Inr example_session, example_world)
   \<and> create_session (example_env [])
        (snd (create_session (example_env []) example_world 1 WebSimulator None 7))
        1 Telegram (Some ''42'') 8
       = (Inr example_session, example_world)"
proof -
  have c: "find (\<lambda>c. c_id c = 1) (candidates example_world) = Some (example_candidate 1 1)"
    by (simp add: example_defs)
  have p: "find (\<lambda>p. p_id p = c_pipeline_id (example_candidate 1 1)) (pipelines example_world)
       = Some (hd example_pipelines)"
    by (simp add: example_defs)
  have m: "example_session \<in> set (interview_sessions example_world)"
    by (simp add: example_world_def)
  have s: "s_candidate_id example_session = 1" "status example_session = ''active''"
    "messages example_session \<noteq> []" "fields_ok (example_env []) example_session"
    by (simp_all add: example_session_def example_env_def)
  note t = create_session_idempotent[OF c p m s(1,2,3) example_active_inv s(4),
             of WebSimulator None 7 Telegram "Some ''42''" 8]
  show ?thesis
    by (intro conjI c p m s example_active_inv conjunct1[OF t] conjunct2[OF t])
qed


subsection \<open>A pipeline without questions\<close>

lemma find_conj:
  "find P xs = Some x \<Longrightarrow> Q x \<Longrightarrow> find (\<lambda>y. P y \<and> Q y) xs = Some x"
  by (induction xs) (auto split: if_splits)

lemma fill_template_empty:
  "fill_template t [] = fill_template t [''Describe your background.'', ''Why do you want this job?'']"
  by (simp add: fill_template_def)

text \<open>
  C1, as stated, fails: for pipeline 2 of the example, whose only stage has no question,
  \<^verbatim>\<open>get_system_prompt\<close> returns a prompt built from two default questions, and
  \<^verbatim>\<open>create_session\<close> returns an active session with a greeting.
\<close>

theorem no_questions_counterexample:
  "get_system_prompt example_world 2
     = ''Ask 2 questions:'' @ nl @ ''1. Describe your background.'' @ nl
       @ ''2. Why do you want this job?''
   \<and> fst (create_session (example_env [says ''Hi'']) example_world 2 WebSimulator None 5)
     = Inr \<lparr>s_id = 2, s_candidate_id = 2, s_pipeline_id = 2, s_platform = WebSimulator,
            s_telegram_chat_id = None, messages = [plain ''assistant'' ''Hi''],
            status = ''active'', scores = JArr [], total_score = JInt 0, created_at = 5\<rparr>"
proof
  show "get_system_prompt example_world 2
     = ''Ask 2 questions:'' @ nl @ ''1. Describe your background.'' @ nl
       @ ''2. Why do you want this job?''"
    by (simp add: example_defs prompt_defs Let_def)
  show "fst (create_session (example_env [says ''Hi'']) example_world 2 WebSimulator None 5)
     = Inr \<lparr>s_id = 2, s_candidate_id = 2, s_pipeline_id = 2, s_platform = WebSimulator,
            s_telegram_chat_id = None, messages = [plain ''assistant'' ''Hi''],
            status = ''active'', scores = JArr [], total_score = JInt 0, created_at = 5\<rparr>"
    by (simp add: example_defs service_defs prompt_defs Let_def)
qed

text \<open>
  C1, amended. If no stage of a stored pipeline has a question, then the agent
  configuration endpoint fails with a 400 error and writes nothing, whereas
  \<^verbatim>\<open>get_system_prompt\<close> (with the agent enabled) does not fail: it returns the
  agent's template filled in for the two default questions.
\<close>

theorem no_questions_fallback:
  assumes p: "find (\<lambda>p. p_id p = pid) (pipelines w) = Some p"
    and none: "\<forall>st \<in> set (stages p). questions st = []"
  shows "(\<forall>agent. p_interview_agent p = Some agent \<and> enabled agent \<longrightarrow>
            get_system_prompt w pid
              = fill_template (agent_prompt agent)
                  [''Describe your background.'', ''Why do you want this job?''])
       \<and> (p_organization_id p = org \<longrightarrow>
            auto_configure_interview_agent gen w pid target org
              = (Inl (HTTPException 400 ''No questions found in pipeline stages to generate prompt.''), w))"
proof (intro conjI allI impI)
  fix agent assume a: "p_interview_agent p = Some agent \<and> enabled agent"
  from none have e: "concat (map (\<lambda>stage. map question_entry (questions stage)) (stages p)) = []"
    by simp
  from p a show "get_system_prompt w pid
              = fill_template (agent_prompt agent)
                  [''Describe your background.'', ''Why do you want this job?'']"
    by (simp add: get_system_prompt_def e fill_template_empty)
next
  assume o: "p_organization_id p = org"
  from find_conj[OF p, of "\<lambda>p. p_organization_id p = org"] o
  have f: "find (\<lambda>p. p_id p = pid \<and> p_organization_id p = org) (pipelines w) = Some p" by simp
  have a: "(case find P (stages p) of None \<Rightarrow> [] | Some st \<Rightarrow> questions st) = []" for P
    using none by (auto split: option.splits dest: find_Some_mem)
  show "auto_configure_interview_agent gen w pid target org
              = (Inl (HTTPException 400 ''No questions found in pipeline stages to generate prompt.''), w)"
    by (simp add: auto_configure_interview_agent_def f a Let_def)
qed

theorem no_questions_fallback_witness:
  "find (\<lambda>p. p_id p = 2) (pipelines example_world) = Some (example_pipelines ! 1)
   \<and> list_all (\<lambda>st. questions st = []) (stages (example_pipelines ! 1))
   \<and> get_system_prompt example_world 2
       = fill_template example_template
           [''Describe your background.'', ''Why do you want this job?'']
   \<and> auto_configure_interview_agent (\<lambda>qs. ''generated'') example_world 2 None 1
       = (Inl (HTTPException 400 ''No questions found in pipeline stages to generate prompt.''),
          example_world)"
proof -
  have p: "find (\<lambda>p. p_id p = 2) (pipelines example_world) = Some (example_pipelines ! 1)"
    by (simp add: example_defs)
  have n: "\<forall>st \<in> set (stages (example_pipelines ! 1)). questions st = []"
    by (simp add: example_defs)
  have a: "p_interview_agent (example_pipelines ! 1)
             = Some \<lparr>enabled = True, agent_prompt = example_template\<rparr>"
    "p_organization_id (example_pipelines ! 1) = 1"
    by (simp_all add: example_pipelines_def)
  note t = no_questions_fallback[OF p n, of 1 "\<lambda>qs. ''generated''" None]
  from conjunct1[OF t] a(1)
  have g: "get_system_prompt example_world 2
       = fill_template example_template
           [''Describe your background.'', ''Why do you want this job?'']" by simp
  from conjunct2[OF t] a(2)
  have c: "auto_configure_interview_agent (\<lambda>qs. ''generated'') example_world 2 None 1
       = (Inl (HTTPException 400 ''No questions found in pipeline stages to generate prompt.''),
          example_world)" by simp
  from n have n': "list_all (\<lambda>st. questions st = []) (stages (example_pipelines ! 1))"
    by (simp add: list_all_iff)
  show ?thesis by (intro conjI p n' g c)
qed


subsection \<open>The requests of a turn\<close>

lemma calls_extend_refl: "calls_extend xs xs"
  by (simp add: calls_extend_def)

lemma calls_extend_snoc:
  assumes a: "calls_extend old new" and r: "turn_request r"
  shows "calls_extend old (new @ [r])"
proof -
  from a have t: "take (length old) new = old" by (simp add: calls_extend_def)
  have "length old \<le> length new"
  proof (rule ccontr)
    assume "\<not> length old \<le> length new"
    then have "length (take (length old) new) < length old" by simp
    with t show False by simp
  qed
  with a r t show ?thesis by (simp add: calls_extend_def)
qed

lemma turn_request_simps [simp]:
  "turn_request (chat_request msgs)" "turn_request (followup_request msgs)"
  "turn_request (scoring_request E p s)"
  by (simp_all add: turn_request_def chat_request_def followup_request_def scoring_request_def
        Let_def)

lemma calls_evaluate_interview:
  "calls_extend xs (llm_calls w) \<Longrightarrow>
   calls_extend xs (llm_calls (snd (evaluate_interview E w s)))"
  by (auto simp: evaluate_interview_def call_llm_def Let_def calls_extend_snoc
        split: option.splits sum.splits)

lemma calls_complete_interview:
  assumes "calls_extend xs (llm_calls w)"
  shows "calls_extend xs (llm_calls (snd (complete_interview E w s)))"
proof -
  obtain r w1 where ev: "evaluate_interview E w s = (r, w1)" by force
  with calls_evaluate_interview[OF assms, of E s] have "calls_extend xs (llm_calls w1)" by simp
  then show ?thesis
    by (auto simp: complete_interview_def ev Let_def split: sum.splits)
qed

lemma calls_run_tool_calls:
  assumes "calls_extend xs (llm_calls w)"
  shows "calls_extend xs (llm_calls (outcome_world (run_tool_calls E w s msgs tcs)))"
proof (induction tcs arbitrary: msgs)
  case Nil
  then show ?case using assms by simp
next
  case (Cons tc tcs)
  obtain r w1 where c: "complete_interview E w s = (r, w1)" by force
  with calls_complete_interview[OF assms, of E s] have "calls_extend xs (llm_calls w1)" by simp
  then show ?case using Cons.IH assms c by (auto split: sum.splits)
qed

lemma calls_chat_turn:
  assumes "calls_extend xs (llm_calls w)"
  shows "calls_extend xs (llm_calls (snd (chat_turn E w s sid msgs)))"
proof (cases "llm E (llm_calls w @ [chat_request msgs])")
  case (Inl e)
  then show ?thesis using assms
    by (simp add: chat_turn_def call_llm_def Let_def calls_extend_snoc)
next
  case (Inr response)
  let ?w2 = "log_if_usage E (w\<lparr>llm_calls := llm_calls w @ [chat_request msgs]\<rparr>)
               (r_usage response) (s_candidate_id s) ''chat''"
  have c2: "calls_extend xs (llm_calls ?w2)"
    using assms by (simp add: calls_extend_snoc)
  let ?out = "run_tool_calls E ?w2 s (msgs @ [model_dump response]) (r_tool_calls response)"
  have co: "calls_extend xs (llm_calls (outcome_world ?out))"
    by (rule calls_run_tool_calls[OF c2])
  show ?thesis
  proof (cases "r_tool_calls response = []")
    case True
    then show ?thesis using Inr c2
      by (auto simp: chat_turn_def call_llm_def Let_def split: option.splits)
  next
    case False
    show ?thesis
    proof (cases ?out)
      case (Finished reply w3)
      then show ?thesis using Inr False co by (simp add: chat_turn_def call_llm_def Let_def)
    next
      case (Raised e w3)
      then show ?thesis using Inr False co by (simp add: chat_turn_def call_llm_def Let_def)
    next
      case (Continue msgs2 w3)
      then show ?thesis using Inr False co
        by (auto simp: chat_turn_def call_llm_def Let_def calls_extend_snoc
              split: sum.splits option.splits)
    qed
  qed
qed

lemma calls_process_message:
  "calls_extend (llm_calls w) (llm_calls (snd (process_message E w sid ut)))"
proof -
  have "calls_extend (llm_calls w)
          (llm_calls (snd (chat_turn E (push_message w sid m) s sid msgs)))" for m s msgs
    by (rule calls_chat_turn) (simp add: calls_extend_refl)
  then show ?thesis
    by (auto simp: process_message_def Let_def calls_extend_refl split: option.splits sum.splits)
qed

text \<open>
  C2, as stated, fails: the second and the third tool are not named
  \<^verbatim>\<open>retrieve_context\<close> and \<^verbatim>\<open>save_candidate_info\<close>. In the example turn the
  request sent to the model carries the schema \<open>tools\<close>.
\<close>

theorem tool_names_counterexample:
  "map fn_name tools \<noteq> [''end_interview'', ''retrieve_context'', ''save_candidate_info'']
   \<and> map req_tools (llm_calls (snd (process_message (example_env [says ''Next'']) example_world 1 ''Hi'')))
       = [Some tools]"
proof
  show "map fn_name tools \<noteq> [''end_interview'', ''retrieve_context'', ''save_candidate_info'']"
    by (simp add: tools_def)
  show "map req_tools (llm_calls (snd (process_message (example_env [says ''Next'']) example_world 1 ''Hi'')))
       = [Some tools]"
    by (simp add: example_defs service_defs Let_def)
qed

text \<open>
  C2, amended. The schema has exactly three tools, named \<^verbatim>\<open>end_interview\<close>,
  \<^verbatim>\<open>Retrieve_messages1\<close> and \<^verbatim>\<open>User_Info1\<close>; the first two take no argument
  and the third takes one required argument \<^verbatim>\<open>data\<close>, an object. Both chat
  completion calls of a turn pass this schema, and every request a turn sends is such a
  call or the scoring call, which passes no tools.
\<close>

theorem tool_schema_fixed:
  "map fn_name tools = [''end_interview'', ''Retrieve_messages1'', ''User_Info1'']
   \<and> map (\<lambda>t. lookup (fn_parameters t) ''properties'' JNull) tools
       = [JObj [], JObj [],
          JObj [(''data'',
                 JObj [(''type'', JStr ''object''),
                       (''description'',
                        JStr ''Key-value pairs of extracted info (e.g. {'name': 'John', 'age': 30})'')])]]
   \<and> map (\<lambda>t. lookup (fn_parameters t) ''required'' JNull) tools
       = [JArr [], JArr [], JArr [JStr ''data'']]
   \<and> req_tools (chat_request msgs) = Some tools
   \<and> req_tools (followup_request msgs2) = Some tools
   \<and> calls_extend (llm_calls w) (llm_calls (snd (process_message E w sid ut)))"
  by (intro conjI calls_process_message)
     (simp_all add: tools_def no_parameters_def lookup_def dict_get_def chat_request_def
        followup_request_def)

theorem tool_schema_fixed_witness:
  "calls_extend (llm_calls example_world)
     (llm_calls (snd (process_message (example_env [says ''Next'']) example_world 1 ''Hi'')))
   \<and> length (llm_calls (snd (process_message (example_env [says ''Next'']) example_world 1 ''Hi''))) = 1"
proof
  show "calls_extend (llm_calls example_world)
     (llm_calls (snd (process_message (example_env [says ''Next'']) example_world 1 ''Hi'')))"
    using tool_schema_fixed[of "[]" "[]" example_world "example_env [says ''Next'']" 1 "''Hi''"]
    by simp
  show "length (llm_calls (snd (process_message (example_env [says ''Next'']) example_world 1 ''Hi''))) = 1"
    by (simp add: example_defs service_defs Let_def)
qed

subsection \<open>Completion by tool call\<close>

lemma run_tool_calls_prefix:
  "list_all (tool_call_ok E) pre \<Longrightarrow>
   \<exists>msgs'. run_tool_calls E w s msgs (pre @ rest) = run_tool_calls E w s msgs' rest"
proof (induction pre arbitrary: msgs)
  case Nil
  then show ?case by auto
next
  case (Cons tc pre)
  from Cons.prems have ok: "tool_call_ok E tc" and rest: "list_all (tool_call_ok E) pre"
    by simp_all
  from ok obtain args where a: "json_loads E (tc_arguments tc) = Inr args"
    and n: "tc_name tc \<noteq> ''end_interview''"
    and o: "tc_name tc = ''User_Info1'' \<longrightarrow> is_object args"
    by (auto simp: tool_call_ok_def split: sum.splits)
  have d: "\<exists>v. dict_get args ''data'' (JObj []) = Inr v" if "tc_name tc = ''User_Info1''"
    using o that by (auto simp: is_object_def dict_get_def split: json.splits option.splits)
  from Cons.IH[OF rest] show ?case
    using a n d by (auto split: sum.splits)
qed

lemma run_tool_calls_end:
  assumes "tc_name tc = ''end_interview''" and "json_loads E (tc_arguments tc) = Inr a"
    and "fst (complete_interview E w s) = Inr ()"
  shows "run_tool_calls E w s msgs (tc # post)
           = Finished ''Interview Completed. Thank you!'' (snd (complete_interview E w s))"
  using assms by (cases "complete_interview E w s") (auto split: sum.splits)

lemma find_cid_update_first:
  "(\<And>x. c_id (f x) = c_id x) \<Longrightarrow>
   find (\<lambda>c. c_id c = i) (update_first (\<lambda>c. c_id c = j) f xs) =
     (if i = j then map_option f (find (\<lambda>c. c_id c = i) xs)
      else find (\<lambda>c. c_id c = i) xs)"
  by (induction xs) auto

lemma candidate_kept_log_token_usage:
  "(find (\<lambda>c. c_id c = i) (candidates (log_token_usage E w u c t)) = None)
     = (find (\<lambda>c. c_id c = i) (candidates w) = None)"
  by (auto simp: log_token_usage_def Let_def find_cid_update_first split: option.splits)

lemma candidate_kept_log_if_usage:
  "(find (\<lambda>c. c_id c = i) (candidates (log_if_usage E w ou c t)) = None)
     = (find (\<lambda>c. c_id c = i) (candidates w) = None)"
  by (simp add: log_if_usage_def candidate_kept_log_token_usage split: option.splits)

lemma candidate_kept_evaluate_interview:
  "(find (\<lambda>c. c_id c = i) (candidates (snd (evaluate_interview E w s))) = None)
     = (find (\<lambda>c. c_id c = i) (candidates w) = None)"
  by (simp add: evaluate_interview_def call_llm_def Let_def candidate_kept_log_if_usage
        split: option.splits sum.splits)

lemma after_first_call_frame [simp]:
  "pipelines (after_first_call E w sid s ut r) = pipelines w"
  "llm_calls (after_first_call E w sid s ut r) = llm_calls w @ [chat_request (turn_messages w s ut)]"
  "interview_sessions (after_first_call E w sid s ut r)
     = interview_sessions (push_message w sid (plain ''user'' ut))"
  by (simp_all add: after_first_call_def)

lemma candidate_kept_after_first_call:
  "(find (\<lambda>c. c_id c = i) (candidates (after_first_call E w sid s ut r)) = None)
     = (find (\<lambda>c. c_id c = i) (candidates w) = None)"
  by (simp add: after_first_call_def candidate_kept_log_if_usage call_llm_def Let_def)

lemma chat_turn_finished:
  assumes "llm E (llm_calls w1 @ [chat_request msgs]) = Inr response"
    and "r_tool_calls response \<noteq> []"
    and "run_tool_calls E
           (log_if_usage E (snd (call_llm E w1 (chat_request msgs))) (r_usage response)
              (s_candidate_id session) ''chat'')
           session (msgs @ [model_dump response]) (r_tool_calls response) = Finished reply w3"
  shows "chat_turn E w1 session sid msgs = (Inr reply, w3)"
  using assms by (simp add: chat_turn_def call_llm_def Let_def)

text \<open>
  C6, as stated, fails: in the example the model calls \<^verbatim>\<open>end_interview\<close> with
  arguments that are not JSON (the empty text); the reply is an error text, and the
  session and the candidate keep their status.
\<close>

theorem end_interview_counterexample:
  "fst (process_message (example_env [calls_tool ''end_interview'' []]) example_world 1 ''bye'')
     = Inr ''Error: Expecting value: line 1 column 1 (char 0)''
   \<and> map status (interview_sessions
        (snd (process_message (example_env [calls_tool ''end_interview'' []]) example_world 1 ''bye'')))
     = [''active'']
   \<and> map c_status (candidates
        (snd (process_message (example_env [calls_tool ''end_interview'' []]) example_world 1 ''bye'')))
     = [''active'', ''active'']"
  by (simp add: example_defs service_defs Let_def float_eval)

text \<open>
  C6, amended. Let the session of a turn be stored, valid and not completed, and its
  pipeline stored. Let the first completion carry tool calls of which one is
  \<^verbatim>\<open>end_interview\<close> with JSON arguments, every call before it being another tool
  with JSON arguments (a dict for \<^verbatim>\<open>User_Info1\<close>), and let the scoring call fail
  or return a JSON object. Then the reply is the fixed text
  \<^verbatim>\<open>Interview Completed. Thank you!\<close>; the only requests of the turn are the first
  completion call and the scoring call; the session is stored as completed, with the
  candidate's message appended and the scores and the total of the scoring result (an
  empty list and 0 when scoring failed); and the candidate, if stored, has the status
  \<^verbatim>\<open>interview_completed\<close>.
\<close>

theorem end_interview_completes:
  assumes found: "find (\<lambda>s. s_id s = sid) (interview_sessions w) = Some d"
    and valid: "InterviewSession E d = Inr session"
    and opn: "status session \<noteq> ''completed''"
    and pipeline: "find (\<lambda>p. p_id p = s_pipeline_id session) (pipelines w) = Some p"
    and first: "llm E (llm_calls w @ [chat_request (turn_messages w session ut)]) = Inr response"
    and calls: "r_tool_calls response = pre @ tc # post"
    and pre: "list_all (tool_call_ok E) pre"
    and tc: "tc_name tc = ''end_interview''"
    and args: "json_loads E (tc_arguments tc) = Inr a"
    and scored: "is_object (scoring_result E
                   (llm E (llm_calls w @ [chat_request (turn_messages w session ut),
                                           scoring_request E p session])))"
  shows "let w' = snd (process_message E w sid ut);
             r = scoring_result E
                   (llm E (llm_calls w @ [chat_request (turn_messages w session ut),
                                           scoring_request E p session]))
         in fst (process_message E w sid ut) = Inr ''Interview Completed. Thank you!''
            \<and> llm_calls w' = llm_calls w @ [chat_request (turn_messages w session ut),
                                              scoring_request E p session]
            \<and> find (\<lambda>s. s_id s = sid) (interview_sessions w')
                = Some (d\<lparr>messages := messages d @ [plain ''user'' ut], status := ''completed'',
                          scores := lookup r ''scores'' (JArr []),
                          total_score := lookup r ''total_score'' (JInt 0)\<rparr>)
            \<and> (scoring_call_fails E
                  (llm E (llm_calls w @ [chat_request (turn_messages w session ut),
                                          scoring_request E p session]))
                 \<longrightarrow> lookup r ''scores'' (JArr []) = JArr [] \<and> lookup r ''total_score'' (JInt 0) = JInt 0)
            \<and> map_option c_status (find (\<lambda>c. c_id c = s_candidate_id session) (candidates w'))
                = map_option (\<lambda>c. ''interview_completed'')
                    (find (\<lambda>c. c_id c = s_candidate_id session) (candidates w))"
proof -
  let ?msgs = "turn_messages w session ut"
  let ?w1 = "push_message w sid (plain ''user'' ut)"
  let ?w2 = "after_first_call E w sid session ut response"
  let ?r = "scoring_result E (llm E (llm_calls w @ [chat_request ?msgs, scoring_request E p session]))"
  let ?wc = "snd (complete_interview E ?w2 session)"
  from InterviewSession_Inr[OF valid] have sd: "session = d" by simp
  from found have sid: "s_id d = sid" by (auto dest: find_Some_mem)
  have p2: "find (\<lambda>p. p_id p = s_pipeline_id session) (pipelines ?w2) = Some p"
    using pipeline by simp
  from evaluate_interview_result[OF p2, of E]
  have ev: "fst (evaluate_interview E ?w2 session) = Inr ?r"
    and evc: "llm_calls (snd (evaluate_interview E ?w2 session))
                = llm_calls w @ [chat_request ?msgs, scoring_request E p session]"
    by simp_all
  note ci = complete_interview_object[OF ev scored]
  from run_tool_calls_prefix[OF pre, of ?w2 session "?msgs @ [model_dump response]" "tc # post"]
  obtain msgs' where
    "run_tool_calls E ?w2 session (?msgs @ [model_dump response]) (pre @ tc # post)
       = run_tool_calls E ?w2 session msgs' (tc # post)" by blast
  with run_tool_calls_end[OF tc args ci(1), of msgs' post]
  have rt: "run_tool_calls E ?w2 session (?msgs @ [model_dump response]) (r_tool_calls response)
              = Finished ''Interview Completed. Thank you!'' ?wc"
    by (simp add: calls)
  have ct: "chat_turn E ?w1 session sid ?msgs = (Inr ''Interview Completed. Thank you!'', ?wc)"
    by (rule chat_turn_finished[where response = response])
       (use first calls rt in \<open>simp_all add: after_first_call_def\<close>)
  have pm: "process_message E w sid ut = (Inr ''Interview Completed. Thank you!'', ?wc)"
    unfolding process_message_open[OF found valid opn] ct by simp
  have sess: "find (\<lambda>s. s_id s = sid) (interview_sessions ?wc)
                = Some (d\<lparr>messages := messages d @ [plain ''user'' ut], status := ''completed'',
                          scores := lookup ?r ''scores'' (JArr []),
                          total_score := lookup ?r ''total_score'' (JInt 0)\<rparr>)"
    unfolding ci(2) using found
    by (simp add: sd sid push_message_def find_by_id_update_first)
  have fails: "lookup ?r ''scores'' (JArr []) = JArr [] \<and> lookup ?r ''total_score'' (JInt 0) = JInt 0"
    if "scoring_call_fails E
          (llm E (llm_calls w @ [chat_request ?msgs, scoring_request E p session]))"
    using scoring_result_fails[OF that] by simp
  have ex: "(find (\<lambda>c. c_id c = s_candidate_id session)
               (candidates (snd (evaluate_interview E ?w2 session))) = None)
            = (find (\<lambda>c. c_id c = s_candidate_id session) (candidates w) = None)"
    by (simp add: candidate_kept_evaluate_interview candidate_kept_after_first_call)
  have cand: "map_option c_status (find (\<lambda>c. c_id c = s_candidate_id session) (candidates ?wc))
                = map_option (\<lambda>c. ''interview_completed'')
                    (find (\<lambda>c. c_id c = s_candidate_id session) (candidates w))"
    using ex by (cases "find (\<lambda>c. c_id c = s_candidate_id session) (candidates w)";
                 cases "find (\<lambda>c. c_id c = s_candidate_id session)
                          (candidates (snd (evaluate_interview E ?w2 session)))")
                (simp_all add: ci(3) find_cid_update_first)
  show ?thesis
    unfolding Let_def pm
    using sess fails cand by (simp add: ci(4) evc)
qed

lemma example_pipeline:
  "find (\<lambda>p. p_id p = s_pipeline_id example_session) (pipelines example_world)
     = Some (hd example_pipelines)"
  by (simp add: example_defs)

theorem end_interview_completes_witness:
  "find (\<lambda>s. s_id s = 1) (interview_sessions example_world) = Some example_session
   \<and> InterviewSession (example_env [calls_tool ''end_interview'' ''{}'', says example_scores])
        example_session = Inr example_session
   \<and> status example_session \<noteq> ''completed''
   \<and> find (\<lambda>p. p_id p = s_pipeline_id example_session) (pipelines example_world)
       = Some (hd example_pipelines)
   \<and> llm (example_env [calls_tool ''end_interview'' ''{}'', says example_scores])
        (llm_calls example_world
         @ [chat_request (turn_messages example_world example_session ''bye'')])
       = calls_tool ''end_interview'' ''{}''
   \<and> json_loads (example_env [calls_tool ''end_interview'' ''{}'', says example_scores]) ''{}''
       = Inr (JObj [])
   \<and> fst (process_message
             (example_env [calls_tool ''end_interview'' ''{}'', says example_scores])
             example_world 1 ''bye'')
       = Inr ''Interview Completed. Thank you!''
   \<and> map_option (\<lambda>s. (status s, scores s, total_score s))
        (find (\<lambda>s. s_id s = 1)
           (interview_sessions
              (snd (process_message
                      (example_env [calls_tool ''end_interview'' ''{}'', says example_scores])
                      example_world 1 ''bye''))))
       = Some (''completed'', JArr [], JInt 7)
   \<and> map_option c_status
        (find (\<lambda>c. c_id c = s_candidate_id example_session)
           (candidates
              (snd (process_message
                      (example_env [calls_tool ''end_interview'' ''{}'', says example_scores])
                      example_world 1 ''bye''))))
       = Some ''interview_completed''"
proof -
  let ?E = "example_env [calls_tool ''end_interview'' ''{}'', says example_scores]"
  let ?tc = "\<lparr>tc_id = ''call_1'', tc_name = ''end_interview'', tc_arguments = ''{}''\<rparr>"
  let ?resp = "\<lparr>r_usage = Some example_usage, r_content = None, r_tool_calls = [?tc]\<rparr>"
  have first: "llm ?E (llm_calls example_world
                 @ [chat_request (turn_messages example_world example_session ''bye'')])
               = Inr ?resp"
    by (simp add: example_env_def example_world_def calls_tool_def)
  have first': "llm ?E (llm_calls example_world
                 @ [chat_request (turn_messages example_world example_session ''bye'')])
               = calls_tool ''end_interview'' ''{}''"
    by (simp add: example_env_def example_world_def)
  have calls: "r_tool_calls ?resp = [] @ ?tc # []" by simp
  have pre: "list_all (tool_call_ok ?E) []" by simp
  have tc: "tc_name ?tc = ''end_interview''" by simp
  have args: "json_loads ?E (tc_arguments ?tc) = Inr (JObj [])"
    by (simp add: example_env_def)
  have args': "json_loads ?E ''{}'' = Inr (JObj [])"
    by (simp add: example_env_def)
  have r: "scoring_result ?E (llm ?E (llm_calls example_world @ [c1, c2]))
             = JObj [(''total_score'', JInt 7)]" for c1 c2
    by (simp add: example_env_def example_world_def says_def scoring_result_def
          example_scores_def dq_def)
  have scored: "is_object (scoring_result ?E
                   (llm ?E (llm_calls example_world
                      @ [chat_request (turn_messages example_world example_session ''bye''),
                         scoring_request ?E (hd example_pipelines) example_session])))"
    by (simp add: r is_object_def)
  have c: "find (\<lambda>c. c_id c = s_candidate_id example_session) (candidates example_world)
             = Some (example_candidate 1 1)"
    by (simp add: example_defs)
  note t = end_interview_completes[OF example_found example_valid example_open example_pipeline
             first calls pre tc args scored, unfolded Let_def r]
  have reply: "fst (process_message ?E example_world 1 ''bye'')
                 = Inr ''Interview Completed. Thank you!''"
    using t by simp
  have sess: "map_option (\<lambda>s. (status s, scores s, total_score s))
        (find (\<lambda>s. s_id s = 1) (interview_sessions (snd (process_message ?E example_world 1 ''bye''))))
       = Some (''completed'', JArr [], JInt 7)"
    using t by (simp add: lookup_def dict_get_def)
  have cand: "map_option c_status
        (find (\<lambda>c. c_id c = s_candidate_id example_session)
           (candidates (snd (process_message ?E example_world 1 ''bye''))))
       = Some ''interview_completed''"
    using t c by simp
  show ?thesis
    by (intro conjI example_found example_valid example_open example_pipeline first' args'
          reply sess cand)
qed

end
